theory Spec2Isabelle
  imports Main
begin

section \<open>JavaScript values\<close>

text \<open>
  The SDK (\<^verbatim>\<open>src/es5-gfycat-sdk.js\<close>) handles untyped JavaScript values: option mappings
  given by the caller, response bodies, errors. The fragment it touches is modelled by
  \<open>jsval\<close>. Numbers are the integers the SDK meets (counts, time-outs, status codes).
  An object is the list of its own properties in insertion order; \<open>obj_set\<close> and
  \<open>obj_delete\<close> keep the keys of such a list distinct.
\<close>

datatype jsval =
    Undefined
  | Null
  | Bool bool
  | Num int
  | Str string
  | Obj "(string \<times> jsval) list"

type_synonym obj = "(string \<times> jsval) list"

text \<open>Truthiness, as \<^verbatim>\<open>!x\<close>, \<^verbatim>\<open>x ? a : b\<close> and \<^verbatim>\<open>x || y\<close> test it.\<close>

fun truthy :: "jsval \<Rightarrow> bool" where
  "truthy Undefined = False"
| "truthy Null = False"
| "truthy (Bool b) = b"
| "truthy (Num n) = (n \<noteq> 0)"
| "truthy (Str s) = (s \<noteq> [])"
| "truthy (Obj kvs) = True"

text \<open>\<^verbatim>\<open>a || b\<close>\<close>

definition js_or :: "jsval \<Rightarrow> jsval \<Rightarrow> jsval" where
  "js_or a b = (if truthy a then a else b)"

text \<open>\<^verbatim>\<open>x == null\<close>: loose equality with null holds of null and undefined only.\<close>

fun loose_null :: "jsval \<Rightarrow> bool" where
  "loose_null Undefined = True"
| "loose_null Null = True"
| "loose_null v = False"


text \<open>Own properties of an object: read, write, delete, \<^verbatim>\<open>hasOwnProperty\<close>.\<close>

fun obj_get :: "obj \<Rightarrow> string \<Rightarrow> jsval" where
  "obj_get [] k = Undefined"
| "obj_get ((k', v) # kvs) k = (if k' = k then v else obj_get kvs k)"

fun obj_set :: "string \<Rightarrow> jsval \<Rightarrow> obj \<Rightarrow> obj" where
  "obj_set k v [] = [(k, v)]"
| "obj_set k v ((k', v') # kvs) =
     (if k' = k then (k, v) # kvs else (k', v') # obj_set k v kvs)"

fun obj_delete :: "string \<Rightarrow> obj \<Rightarrow> obj" where
  "obj_delete k [] = []"
| "obj_delete k ((k', v) # kvs) =
     (if k' = k then obj_delete k kvs else (k', v) # obj_delete k kvs)"

definition has_own :: "obj \<Rightarrow> string \<Rightarrow> bool" where
  "has_own kvs k = (k \<in> set (map fst kvs))"

text \<open>
  Errors created by \<^verbatim>\<open>new Error(msg)\<close>, and the TypeError the engine raises when a
  property of null or undefined is read or written (its message depends on the engine and
  is left out).
\<close>

definition js_Error :: "string \<Rightarrow> jsval" where
  "js_Error msg = Obj [(''name'', Str ''Error''), (''message'', Str msg)]"

definition js_TypeError :: jsval where
  "js_TypeError = Obj [(''name'', Str ''TypeError'')]"

text \<open>
  \<^verbatim>\<open>x.k\<close>: a TypeError (\<open>None\<close>) on null and undefined, the own property of an object,
  undefined on the other primitives.
\<close>

fun get_prop :: "jsval \<Rightarrow> string \<Rightarrow> jsval option" where
  "get_prop Undefined k = None"
| "get_prop Null k = None"
| "get_prop (Obj kvs) k = Some (obj_get kvs k)"
| "get_prop v k = Some Undefined"

text \<open>A property read of a value known to be neither null nor undefined.\<close>

definition read :: "jsval \<Rightarrow> string \<Rightarrow> jsval" where
  "read v k = (case get_prop v k of None \<Rightarrow> Undefined | Some x \<Rightarrow> x)"

text \<open>String conversion, as \<^verbatim>\<open>'/' + options.id\<close> applies it.\<close>

fun digit_char :: "nat \<Rightarrow> char" where
  "digit_char n = char_of (48 + n)"

fun nat_digits :: "nat \<Rightarrow> nat \<Rightarrow> string" where
  "nat_digits 0 n = []"
| "nat_digits (Suc f) n =
     (if n < 10 then [digit_char n] else nat_digits f (n div 10) @ [digit_char (n mod 10)])"

definition int_string :: "int \<Rightarrow> string" where
  "int_string i =
     (if i < 0 then CHR ''-'' # nat_digits (Suc (nat (- i))) (nat (- i))
      else nat_digits (Suc (nat i)) (nat i))"

fun to_string :: "jsval \<Rightarrow> string" where
  "to_string Undefined = ''undefined''"
| "to_string Null = ''null''"
| "to_string (Bool b) = (if b then ''true'' else ''false'')"
| "to_string (Num n) = int_string n"
| "to_string (Str s) = s"
| "to_string (Obj kvs) = ''[object Object]''"

section \<open>Module state and the client\<close>

text \<open>
  Lines 4-8: the module-level variables. \<open>API_BASE_PATH\<close> is assigned by the
  constructor, so it is state; \<open>console\<close> collects what \<^verbatim>\<open>console.error\<close> printed.
\<close>

definition API_HOSTNAME :: string where
  "API_HOSTNAME = ''https://api.gfycat.com''"

record module_vars =
  API_BASE_PATH :: string
  console :: "string list"

definition module_init :: module_vars where
  "module_init = \<lparr> API_BASE_PATH = ''/v1'', console = [] \<rparr>"

text \<open>The fields of a \<^verbatim>\<open>GfycatSDK\<close> instance; a field never assigned is \<open>Undefined\<close>.\<close>

record client =
  client_id :: jsval
  client_secret :: jsval
  client_timeout :: jsval
  apiUrl :: string
  retryLimit :: int
  access_token :: jsval
  token_type :: jsval

definition anonymous_warning :: string where
  "anonymous_warning = ''Although some of our API endpoints can be used without an API key, in order to get the best experience, we strongly recommend that you obtain an API key and initialize this SDK with the provided client_id and client_secret. Get your API key today by visiting https://developers.gfycat.com/signup''"

definition config_message :: string where
  "config_message = ''Please provide a valid options object with client_id and client_secret.''"

text \<open>
  Lines 40-54, \<^verbatim>\<open>new GfycatSDK(options)\<close>. \<open>has_credentials\<close> is the condition of
  line 41; on null, \<^verbatim>\<open>typeof options === 'object'\<close> holds and \<^verbatim>\<open>options.hasOwnProperty\<close>
  raises a TypeError (\<open>None\<close>). The result of the constructor is \<open>Inl e\<close> when it throws
  \<open>e\<close>, \<open>Inr c\<close> with the new instance otherwise, next to the module variables after the
  call.
\<close>

definition new_client :: "jsval \<Rightarrow> jsval \<Rightarrow> jsval \<Rightarrow> string \<Rightarrow> client" where
  "new_client cid secret tmo base =
     \<lparr> client_id = cid, client_secret = secret, client_timeout = tmo,
       apiUrl = API_HOSTNAME @ base, retryLimit = 2,
       access_token = Undefined, token_type = Undefined \<rparr>"

fun has_credentials :: "jsval \<Rightarrow> bool option" where
  "has_credentials Null = None"
| "has_credentials (Obj kvs) = Some (has_own kvs ''client_id'' \<and> has_own kvs ''client_secret'')"
| "has_credentials v = Some False"

definition GfycatSDK :: "jsval \<Rightarrow> module_vars \<Rightarrow> (jsval + client) \<times> module_vars" where
  "GfycatSDK options m =
     (case has_credentials options of
        None \<Rightarrow> (Inl js_TypeError, m)
      | Some both \<Rightarrow>
          if both
          then (Inr (new_client (read options ''client_id'') (read options ''client_secret'')
                       (js_or (read options ''timeout'') (Num 30000)) (API_BASE_PATH m)), m)
          else if options = Undefined \<or> \<not> truthy options
          then let m' = m\<lparr> console := console m @ [anonymous_warning],
                            API_BASE_PATH := ''/v1test'' \<rparr>
               in (Inr (new_client Undefined Undefined Undefined (API_BASE_PATH m')), m')
          else (Inl (js_Error config_message), m))"

text \<open>Constructor calls one after the other: the module variables they leave.\<close>

fun constructions :: "jsval list \<Rightarrow> module_vars \<Rightarrow> module_vars" where
  "constructions [] m = m"
| "constructions (options # rest) m = constructions rest (snd (GfycatSDK options m))"

section \<open>Descriptors, the transport and the state of a call\<close>

text \<open>
  The request descriptor, the \<^verbatim>\<open>options\<close> object of \<^verbatim>\<open>_request\<close> (lines 328-334).
  The endpoint methods build \<open>api\<close>, \<open>endpoint\<close> and \<open>method\<close> as strings; \<open>counter\<close> is
  only ever written by \<^verbatim>\<open>options.counter = counter + 1\<close>, so it is a number when present
  (\<open>None\<close>: the property is absent). The other properties hold any value.
\<close>

record descriptor =
  api :: string
  endpoint :: string
  "method" :: string
  query :: jsval
  payload :: jsval
  headers :: jsval
  timeout :: jsval
  counter :: "int option"

text \<open>The object literal \<^verbatim>\<open>httpOptions\<close> (lines 377-385).\<close>

record http_request =
  req_headers :: jsval
  req_method :: string
  req_payload :: jsval
  req_url :: string

record http_options =
  request :: http_request
  http_timeout :: jsval

text \<open>
  The transport \<^verbatim>\<open>./util/http_browser\<close> and the encoder \<^verbatim>\<open>qs\<close> are collaborators outside
  this file and are parameters of the model. A transport invokes exactly one of the two
  continuations it is given: it answers \<open>Resolve body\<close> or \<open>Reject err\<close>, and may depend on
  the requests it has been sent before. \<open>promisesExist\<close> is the module variable of
  line 8.
\<close>

datatype reply = Resolve jsval | Reject jsval

record env =
  httpService :: "http_options list \<Rightarrow> http_options \<Rightarrow> reply"
  queryString :: "obj \<Rightarrow> string"
  promisesExist :: bool

text \<open>
  The state a call runs in: \<open>sdk\<close> is the instance (\<^verbatim>\<open>this\<close>, \<^verbatim>\<open>self\<close>); \<open>heap\<close> holds the
  descriptor objects, a descriptor being passed around by its address; \<open>sent\<close> lists the
  transport requests dispatched so far, each with the address of the descriptor it was
  built from; \<open>calls\<close> lists the invocations \<open>(error, result)\<close> of the caller's callback.
\<close>

type_synonym addr = nat

record world =
  sdk :: client
  heap :: "descriptor list"
  sent :: "(addr \<times> http_options) list"
  calls :: "(jsval \<times> jsval) list"

text \<open>
  How a call completes. \<open>Undef\<close>: it returned undefined (the callback convention; what
  the callback was told is in \<open>calls\<close>). \<open>Fulfilled v\<close>, \<open>Rejected e\<close>: it returned a
  promise, which settles so. \<open>Thrown e\<close>: an exception escaped.
  A run yields \<open>None\<close> when the fuel of the model is used up before the call completes.
\<close>

datatype completion = Undef | Fulfilled jsval | Rejected jsval | Thrown jsval

type_synonym run = "(completion \<times> world) option"

type_synonym callback = "jsval \<Rightarrow> jsval \<Rightarrow> world \<Rightarrow> run"

text \<open>The caller's callback: it records its two arguments.\<close>

definition user_callback :: callback where
  "user_callback err res w = Some (Undef, w\<lparr> calls := calls w @ [(err, res)] \<rparr>)"

text \<open>\<^verbatim>\<open>s; rest\<close> where the value of statement \<open>s\<close> is dropped: an exception ends the flow.\<close>

definition and_then :: "run \<Rightarrow> (world \<Rightarrow> run) \<Rightarrow> run" where
  "and_then r k =
     (case r of None \<Rightarrow> None
      | Some (Thrown e, w) \<Rightarrow> Some (Thrown e, w)
      | Some (c, w) \<Rightarrow> k w)"

text \<open>
  What a \<^verbatim>\<open>then\<close> or \<^verbatim>\<open>catch\<close> handler's body settles the derived promise to: a returned
  promise is adopted, a returned non-promise fulfils it, an exception rejects it.
\<close>

fun settle :: "completion \<Rightarrow> completion" where
  "settle Undef = Fulfilled Undefined"
| "settle (Thrown e) = Rejected e"
| "settle c = c"

text \<open>Lines 22-30, \<^verbatim>\<open>_handleErr(err, callback)\<close>.\<close>

definition sdk_handleErr :: "env \<Rightarrow> jsval \<Rightarrow> callback option \<Rightarrow> world \<Rightarrow> run" where
  "sdk_handleErr ev err callback w =
     (case callback of
        Some cb \<Rightarrow> cb err Undefined w
      | None \<Rightarrow> if promisesExist ev then Some (Rejected err, w)
                else Some (Thrown (js_Error (to_string err)), w))"

text \<open>Lines 433-436, \<^verbatim>\<open>_setToken(options)\<close>; \<open>None\<close> is the TypeError on null and undefined.\<close>

definition sdk_setToken :: "jsval \<Rightarrow> client \<Rightarrow> client option" where
  "sdk_setToken res c =
     (case get_prop res ''access_token'' of
        None \<Rightarrow> None
      | Some tok \<Rightarrow>
          (case get_prop res ''token_type'' of
             None \<Rightarrow> None
           | Some ty \<Rightarrow> Some (c\<lparr> access_token := tok, token_type := ty \<rparr>)))"

section \<open>The request orchestrator\<close>

text \<open>
  Lines 354-360: when the instance holds a token, the descriptor's headers are created if
  undefined and \<^verbatim>\<open>Authorization\<close> is set to \<^verbatim>\<open>this.access_token\<close>. Writing a property
  of null raises a TypeError (\<open>None\<close>); writing one of another primitive does nothing.
\<close>

definition attach_token :: "client \<Rightarrow> descriptor \<Rightarrow> descriptor option" where
  "attach_token c d =
     (if truthy (access_token c) then
        (case (if headers d = Undefined then Obj [] else headers d) of
           Null \<Rightarrow> None
         | Obj kvs \<Rightarrow> Some (d\<lparr> headers := Obj (obj_set ''Authorization'' (access_token c) kvs) \<rparr>)
         | h \<Rightarrow> Some (d\<lparr> headers := h \<rparr>))
      else Some d)"

text \<open>
  Lines 367-372: the loop over the keys of \<^verbatim>\<open>options.query\<close>, deleting each key whose
  value is loosely equal to null.
\<close>

fun omit_loop :: "string list \<Rightarrow> obj \<Rightarrow> obj" where
  "omit_loop [] q = q"
| "omit_loop (key # keys) q =
     omit_loop keys (if loose_null (obj_get q key) then obj_delete key q else q)"

definition omit_nulls :: "obj \<Rightarrow> obj" where
  "omit_nulls q = omit_loop (map fst q) q"

text \<open>
  Lines 362-375: the local \<^verbatim>\<open>query\<close> and the descriptor after the deletions.
  \<^verbatim>\<open>Object.keys(null)\<close> raises a TypeError (\<open>None\<close>).
\<close>

definition build_query :: "env \<Rightarrow> descriptor \<Rightarrow> (string \<times> descriptor) option" where
  "build_query ev d =
     (case query d of
        Null \<Rightarrow> None
      | Obj q \<Rightarrow>
          (if length (map fst q) \<noteq> 0
           then Some (''?'' @ queryString ev (omit_nulls q), d\<lparr> query := Obj (omit_nulls q) \<rparr>)
           else Some ([], d))
      | v \<Rightarrow> Some ([], d))"

text \<open>Lines 377-385: the object \<^verbatim>\<open>httpOptions\<close>.\<close>

definition httpOptions :: "client \<Rightarrow> descriptor \<Rightarrow> string \<Rightarrow> http_options" where
  "httpOptions c d q =
     \<lparr> request = \<lparr> req_headers = js_or (headers d) Null,
                   req_method = method d,
                   req_payload = js_or (payload d) Null,
                   req_url = apiUrl c @ api d @ endpoint d @ q \<rparr>,
       http_timeout = js_or (timeout d) (client_timeout c) \<rparr>"

text \<open>
  Lines 354-385 together, on the descriptor at address \<open>a\<close>: \<open>Inl e\<close> when \<open>e\<close> is
  thrown, \<open>Inr h\<close> with the transport request otherwise, and the state with the descriptor
  as the assignments left it.
\<close>

definition prepare :: "env \<Rightarrow> addr \<Rightarrow> world \<Rightarrow> (jsval + http_options) \<times> world" where
  "prepare ev a w =
     (case attach_token (sdk w) (heap w ! a) of
        None \<Rightarrow> (Inl js_TypeError, w)
      | Some d1 \<Rightarrow>
          (case build_query ev d1 of
             None \<Rightarrow> (Inl js_TypeError, w\<lparr> heap := (heap w)[a := d1] \<rparr>)
           | Some (q, d2) \<Rightarrow>
               (Inr (httpOptions (sdk w) d2 q), w\<lparr> heap := (heap w)[a := d2] \<rparr>)))"

text \<open>\<^verbatim>\<open>options.counter || 0\<close>\<close>

definition counter_or_0 :: "descriptor \<Rightarrow> int" where
  "counter_or_0 d = (case counter d of None \<Rightarrow> 0 | Some c \<Rightarrow> c)"

text \<open>\<^verbatim>\<open>options.counter = c\<close> on the descriptor at address \<open>a\<close>.\<close>

definition set_counter :: "addr \<Rightarrow> int \<Rightarrow> world \<Rightarrow> world" where
  "set_counter a c w = w\<lparr> heap := (heap w)[a := (heap w ! a)\<lparr> counter := Some c \<rparr>] \<rparr>"

text \<open>The transport is handed \<open>h\<close>; its answer, and the state with the dispatch recorded.\<close>

definition dispatch :: "env \<Rightarrow> addr \<Rightarrow> http_options \<Rightarrow> world \<Rightarrow> reply \<times> world" where
  "dispatch ev a h w =
     (httpService ev (map snd (sent w)) h, w\<lparr> sent := sent w @ [(a, h)] \<rparr>)"

text \<open>A statement whose value is dropped, after which the function returns undefined.\<close>

definition returns_undefined :: "run \<Rightarrow> run" where
  "returns_undefined r = and_then r (\<lambda>w. Some (Undef, w))"

text \<open>The object literal of lines 73-82, from the caller's options and the instance.\<close>

definition oauth_descriptor :: "client \<Rightarrow> jsval \<Rightarrow> descriptor" where
  "oauth_descriptor c options =
     \<lparr> api = ''/oauth'', endpoint = ''/token'', method = ''POST'', query = Undefined,
       payload = Obj [(''client_id'', js_or (read options ''client_id'') (client_id c)),
                      (''client_secret'', js_or (read options ''client_secret'') (client_secret c)),
                      (''grant_type'', js_or (read options ''grant_type'') (Str ''client_credentials''))],
       headers = Undefined, timeout = Undefined, counter = None \<rparr>"

text \<open>A fresh object: it is stored at the next free address.\<close>

definition alloc :: "descriptor \<Rightarrow> world \<Rightarrow> addr \<times> world" where
  "alloc d w = (length (heap w), w\<lparr> heap := heap w @ [d] \<rparr>)"

text \<open>
  Lines 338-431, \<^verbatim>\<open>_request(options, callback)\<close>, and lines 67-103,
  \<^verbatim>\<open>authenticate(options, callback)\<close>, which call each other. The first argument is the
  fuel: every call uses one unit. \<open>options\<close> of \<open>sdk_request\<close> is \<open>None\<close> for a missing
  (falsy) descriptor. The transport's continuations run as part of the call, so that the
  state returned is the state when the whole flow has ended.
\<close>

fun sdk_request :: "nat \<Rightarrow> env \<Rightarrow> addr option \<Rightarrow> callback option \<Rightarrow> world \<Rightarrow> run"
  and authenticate :: "nat \<Rightarrow> env \<Rightarrow> jsval \<Rightarrow> callback option \<Rightarrow> world \<Rightarrow> run"
where
  "sdk_request 0 ev options callback w = None"
| "sdk_request (Suc n) ev options callback w =
     (if Option.is_none callback \<and> \<not> promisesExist ev
      then Some (Thrown (js_Error ''Callback must be provided if promises are unavailable''), w)
      else case options of
        None \<Rightarrow> sdk_handleErr ev (Str ''Please provide valid options object'') callback w
      | Some a \<Rightarrow>
          let counter = counter_or_0 (heap w ! a) in
          if counter \<ge> retryLimit (sdk w) \<and> Option.is_none callback
          then Some (Rejected (Str ''Retry limit reached''), w)
          else
            and_then
              (if counter \<ge> retryLimit (sdk w)
               then sdk_handleErr ev (Str ''Retry limit reached'') callback w
               else Some (Undef, w))
              (\<lambda>w. case prepare ev a w of
                 (Inl e, w) \<Rightarrow> Some (Thrown e, w)
               | (Inr h, w) \<Rightarrow>
                   (case dispatch ev a h w of (rep, w) \<Rightarrow>
                     (case callback of
                        Some cb \<Rightarrow>
                          (case rep of
                             Resolve res \<Rightarrow> returns_undefined (cb Null res w)
                           | Reject err \<Rightarrow>
                               if err = Num 401 \<and> api (heap w ! a) \<noteq> ''/oauth''
                               then returns_undefined
                                 (authenticate n ev (Obj [])
                                   (Some (\<lambda>err res w.
                                      if truthy err then cb err Undefined w
                                      else sdk_request n ev (Some a) (Some cb)
                                             (set_counter a (counter + 1) w)))
                                   w)
                               else returns_undefined (cb err Undefined w))
                      | None \<Rightarrow>
                          (case rep of
                             Resolve res \<Rightarrow> Some (Fulfilled res, w)
                           | Reject err \<Rightarrow>
                               if err = Num 401 \<and> api (heap w ! a) \<noteq> ''/oauth''
                               then (case authenticate n ev (Obj []) None w of
                                       None \<Rightarrow> None
                                     | Some (Fulfilled res, w) \<Rightarrow>
                                         (case sdk_request n ev (Some a) None
                                                 (set_counter a (counter + 1) w) of
                                            None \<Rightarrow> None
                                          | Some (c, w) \<Rightarrow> Some (settle c, w))
                                     | Some (Rejected e, w) \<Rightarrow> Some (Rejected e, w)
                                     | Some (Thrown e, w) \<Rightarrow> Some (Rejected e, w)
                                     | Some (Undef, w) \<Rightarrow> Some (Rejected js_TypeError, w))
                               else Some (Rejected err, w))))))"
| "authenticate 0 ev options callback w = None"
| "authenticate (Suc n) ev options callback w =
     (let options = (if truthy options then options else Obj []) in
      if \<not> (truthy (client_id (sdk w)) \<or> truthy (client_secret (sdk w))) \<and>
         \<not> (truthy (read options ''client_id'') \<or> truthy (read options ''client_secret''))
      then sdk_handleErr ev (Str ''Please provide client_id and client_secret in options'')
             callback w
      else
        case alloc (oauth_descriptor (sdk w) options) w of (a, w) \<Rightarrow>
          (case callback of
             Some cb \<Rightarrow>
               sdk_request n ev (Some a)
                 (Some (\<lambda>err res w.
                    if \<not> truthy err
                    then (case sdk_setToken res (sdk w) of
                            None \<Rightarrow> Some (Thrown js_TypeError, w)
                          | Some c \<Rightarrow> cb Null res (w\<lparr> sdk := c \<rparr>))
                    else cb err Undefined w))
                 w
           | None \<Rightarrow>
               (case sdk_request n ev (Some a) None w of
                  None \<Rightarrow> None
                | Some (Fulfilled res, w) \<Rightarrow>
                    (case sdk_setToken res (sdk w) of
                       None \<Rightarrow> Some (Fulfilled Undefined, w)
                     | Some c \<Rightarrow> Some (Fulfilled Undefined, w\<lparr> sdk := c \<rparr>))
                | Some (Rejected e, w) \<Rightarrow> Some (Fulfilled Undefined, w)
                | Some (Thrown e, w) \<Rightarrow> Some (Thrown e, w)
                | Some (Undef, w) \<Rightarrow> Some (Thrown js_TypeError, w))))"

section \<open>The endpoint methods\<close>

text \<open>
  \<^verbatim>\<open>this._request({ ... }, callback)\<close> with an object literal: the descriptor is a fresh
  object.
\<close>

definition request_literal :: "nat \<Rightarrow> env \<Rightarrow> descriptor \<Rightarrow> callback option \<Rightarrow> world \<Rightarrow> run" where
  "request_literal n ev d callback w =
     (case alloc d w of (a, w') \<Rightarrow> sdk_request n ev (Some a) callback w')"

text \<open>\<^verbatim>\<open>if (!options) options = {}\<close>\<close>

definition or_empty :: "jsval \<Rightarrow> jsval" where
  "or_empty options = (if \<not> truthy options then Obj [] else options)"

text \<open>
  The object literals the methods pass on. The methods of lines 235-323 read properties of
  \<^verbatim>\<open>options\<close> as it was given, which raises a TypeError on null and undefined: their
  descriptors are built by \<open>reading\<close>.
\<close>

definition reading :: "jsval \<Rightarrow> (world \<Rightarrow> run) \<Rightarrow> world \<Rightarrow> run" where
  "reading options k w =
     (if loose_null options then Some (Thrown js_TypeError, w) else k w)"

definition getCategories_descriptor :: "jsval \<Rightarrow> descriptor" where
  "getCategories_descriptor options =
     \<lparr> api = ''/reactions'', endpoint = ''/populated'', method = ''GET'',
       query = Obj [(''gfyCount'', js_or (read options ''gfyCount'') (Num 1)),
                    (''count'', js_or (read options ''count'') Null),
                    (''cursor'', js_or (read options ''cursor'') Null),
                    (''locale'', js_or (read options ''locale'') Null)],
       payload = Undefined, headers = Undefined, timeout = Undefined, counter = None \<rparr>"

definition getTrendingCategories_descriptor :: "jsval \<Rightarrow> descriptor" where
  "getTrendingCategories_descriptor options =
     \<lparr> api = ''/reactions'', endpoint = ''/populated'', method = ''GET'',
       query = Obj [(''gfyCount'', js_or (read options ''gfyCount'') (Num 1)),
                    (''cursor'', js_or (read options ''cursor'') Null),
                    (''tagName'', js_or (read options ''tagName'') (Str ''trending''))],
       payload = Undefined, headers = Undefined, timeout = Undefined, counter = None \<rparr>"

definition getTrending_descriptor :: "jsval \<Rightarrow> descriptor" where
  "getTrending_descriptor options =
     \<lparr> api = ''/gfycats'', endpoint = ''/trending'', method = ''GET'',
       query = Obj [(''count'', js_or (read options ''count'') (Num 100)),
                    (''cursor'', js_or (read options ''cursor'') Null),
                    (''tagName'', js_or (read options ''tagName'') Null)],
       payload = Undefined, headers = Undefined, timeout = Undefined, counter = None \<rparr>"

definition getTrendingTags_descriptor :: "jsval \<Rightarrow> descriptor" where
  "getTrendingTags_descriptor options =
     \<lparr> api = ''/tags'', endpoint = ''/trending'', method = ''GET'',
       query = Undefined,
       payload = Undefined, headers = Undefined, timeout = Undefined, counter = None \<rparr>"

definition getTrendingTagsPopulated_descriptor :: "jsval \<Rightarrow> descriptor" where
  "getTrendingTagsPopulated_descriptor options =
     \<lparr> api = ''/tags'', endpoint = ''/trending/populated'', method = ''GET'',
       query = Obj [(''count'', js_or (read options ''count'') (Num 100)),
                    (''cursor'', js_or (read options ''cursor'') Null),
                    (''gfyCount'', js_or (read options ''gfyCount'') (Num 1))],
       payload = Undefined, headers = Undefined, timeout = Undefined, counter = None \<rparr>"

definition search_descriptor :: "jsval \<Rightarrow> descriptor" where
  "search_descriptor options =
     \<lparr> api = ''/gfycats'', endpoint = ''/search'', method = ''GET'',
       query = Obj [(''search_text'', read options ''search_text''),
                    (''count'', js_or (read options ''count'') (Num 100)),
                    (''start'', js_or (read options ''start'') Null),
                    (''cursor'', js_or (read options ''cursor'') Null)],
       payload = Undefined, headers = Undefined, timeout = Undefined, counter = None \<rparr>"

definition searchById_descriptor :: "jsval \<Rightarrow> descriptor" where
  "searchById_descriptor options =
     \<lparr> api = ''/gfycats'', endpoint = ''/'' @ to_string (read options ''id''), method = ''GET'',
       query = Undefined,
       payload = Undefined, headers = Undefined, timeout = Undefined, counter = None \<rparr>"

definition getRelatedContent_descriptor :: "jsval \<Rightarrow> descriptor" where
  "getRelatedContent_descriptor options =
     \<lparr> api = ''/gfycats'',
       endpoint = ''/'' @ to_string (read options ''id'') @ ''/related'', method = ''GET'',
       query = Obj [(''cursor'', read options ''cursor''),
                    (''count'', read options ''count''),
                    (''from'', read options ''from'')],
       payload = Undefined, headers = Undefined, timeout = Undefined, counter = None \<rparr>"

definition artifacts_descriptor :: "jsval \<Rightarrow> descriptor" where
  "artifacts_descriptor options =
     \<lparr> api = ''/gifartifacts'', endpoint = [], method = ''POST'',
       query = Undefined,
       payload = Obj [(''uploadKey'', read options ''uploadKey''),
                      (''tags'', read options ''tags'')],
       headers = Obj [(''Content-Type'', Str ''application/x-www-form-urlencoded'')],
       timeout = Undefined, counter = None \<rparr>"

definition stickers_descriptor :: "jsval \<Rightarrow> descriptor" where
  "stickers_descriptor options =
     \<lparr> api = ''/stickers'',
       endpoint = (if truthy (read options ''search_text'') then ''/search'' else []),
       method = ''GET'',
       query = Obj [(''cursor'', read options ''cursor''),
                    (''count'', read options ''count''),
                    (''search_text'', read options ''search_text'')],
       payload = Undefined, headers = Undefined, timeout = Undefined, counter = None \<rparr>"

text \<open>Lines 114-223: the methods that replace a missing \<^verbatim>\<open>options\<close> by \<^verbatim>\<open>{}\<close>.\<close>

definition getCategories :: "nat \<Rightarrow> env \<Rightarrow> jsval \<Rightarrow> callback option \<Rightarrow> world \<Rightarrow> run" where
  "getCategories n ev options callback w =
     request_literal n ev (getCategories_descriptor (or_empty options)) callback w"

definition getTrendingCategories :: "nat \<Rightarrow> env \<Rightarrow> jsval \<Rightarrow> callback option \<Rightarrow> world \<Rightarrow> run" where
  "getTrendingCategories n ev options callback w =
     request_literal n ev (getTrendingCategories_descriptor (or_empty options)) callback w"

definition getTrending :: "nat \<Rightarrow> env \<Rightarrow> jsval \<Rightarrow> callback option \<Rightarrow> world \<Rightarrow> run" where
  "getTrending n ev options callback w =
     request_literal n ev (getTrending_descriptor (or_empty options)) callback w"

definition getTrendingTags :: "nat \<Rightarrow> env \<Rightarrow> jsval \<Rightarrow> callback option \<Rightarrow> world \<Rightarrow> run" where
  "getTrendingTags n ev options callback w =
     request_literal n ev (getTrendingTags_descriptor (or_empty options)) callback w"

definition getTrendingTagsPopulated :: "nat \<Rightarrow> env \<Rightarrow> jsval \<Rightarrow> callback option \<Rightarrow> world \<Rightarrow> run" where
  "getTrendingTagsPopulated n ev options callback w =
     request_literal n ev (getTrendingTagsPopulated_descriptor (or_empty options)) callback w"

text \<open>Lines 235-303: the methods that use \<^verbatim>\<open>options\<close> as given.\<close>

definition search :: "nat \<Rightarrow> env \<Rightarrow> jsval \<Rightarrow> callback option \<Rightarrow> world \<Rightarrow> run" where
  "search n ev options callback w =
     reading options
       (request_literal n ev (search_descriptor options) callback) w"

definition searchById :: "nat \<Rightarrow> env \<Rightarrow> jsval \<Rightarrow> callback option \<Rightarrow> world \<Rightarrow> run" where
  "searchById n ev options callback w =
     reading options
       (request_literal n ev (searchById_descriptor options) callback) w"

definition getRelatedContent :: "nat \<Rightarrow> env \<Rightarrow> jsval \<Rightarrow> callback option \<Rightarrow> world \<Rightarrow> run" where
  "getRelatedContent n ev options callback w =
     reading options
       (request_literal n ev (getRelatedContent_descriptor options) callback) w"

definition artifacts :: "nat \<Rightarrow> env \<Rightarrow> jsval \<Rightarrow> callback option \<Rightarrow> world \<Rightarrow> run" where
  "artifacts n ev options callback w =
     reading options
       (request_literal n ev (artifacts_descriptor options) callback) w"

text \<open>
  Lines 312-323: \<^verbatim>\<open>stickers\<close> calls \<^verbatim>\<open>this._request\<close> with the descriptor alone; its
  \<^verbatim>\<open>callback\<close> parameter is not passed on.
\<close>

definition stickers :: "nat \<Rightarrow> env \<Rightarrow> jsval \<Rightarrow> callback option \<Rightarrow> world \<Rightarrow> run" where
  "stickers n ev options callback w =
     reading options
       (request_literal n ev (stickers_descriptor options) None) w"

section \<open>Observations and scenarios\<close>

text \<open>The number of transport requests built from the descriptor at address \<open>a\<close>.\<close>

definition attempts :: "addr \<Rightarrow> world \<Rightarrow> nat" where
  "attempts a w = length (filter (\<lambda>p. fst p = a) (sent w))"

text \<open>The instance holds a credential, as line 69 tests it.\<close>

definition has_keys :: "client \<Rightarrow> bool" where
  "has_keys c = (truthy (client_id c) \<or> truthy (client_secret c))"




text \<open>
  Concrete collaborators and states. \<open>sample_encoder\<close> stands for \<^verbatim>\<open>qs.stringify\<close> on
  a flat mapping; the sample transports answer every request with a status, or answer the
  token request with a token and the other requests with 401, for ever or for their first
  \<open>k\<close> requests.
\<close>

fun sample_encoder :: "obj \<Rightarrow> string" where
  "sample_encoder [] = []"
| "sample_encoder [(k, v)] = k @ ''='' @ to_string v"
| "sample_encoder ((k, v) # kvs) = k @ ''='' @ to_string v @ ''&'' @ sample_encoder kvs"

definition always_status :: "int \<Rightarrow> http_options list \<Rightarrow> http_options \<Rightarrow> reply" where
  "always_status n hist h = Reject (Num n)"

definition token_body :: jsval where
  "token_body = Obj [(''access_token'', Str ''t0k3n''), (''token_type'', Str ''bearer'')]"

definition gifs_body :: jsval where
  "gifs_body = Obj [(''gfycats'', Str ''...'')]"

definition always_ok :: "http_options list \<Rightarrow> http_options \<Rightarrow> reply" where
  "always_ok hist h = Resolve gifs_body"

definition is_token_request :: "http_options \<Rightarrow> bool" where
  "is_token_request h = (req_url (request h) = ''https://api.gfycat.com/v1/oauth/token'')"

definition unauthorized_first :: "nat \<Rightarrow> http_options list \<Rightarrow> http_options \<Rightarrow> reply" where
  "unauthorized_first k hist h =
     (if is_token_request h then Resolve token_body
      else if length (filter (\<lambda>x. \<not> is_token_request x) hist) < k then Reject (Num 401)
      else Resolve gifs_body)"

definition unauthorized_always :: "http_options list \<Rightarrow> http_options \<Rightarrow> reply" where
  "unauthorized_always hist h =
     (if is_token_request h then Resolve token_body else Reject (Num 401))"

definition sample_env :: "(http_options list \<Rightarrow> http_options \<Rightarrow> reply) \<Rightarrow> env" where
  "sample_env tr = \<lparr> httpService = tr, queryString = sample_encoder, promisesExist = True \<rparr>"

definition keyed_client :: client where
  "keyed_client = new_client (Str ''id'') (Str ''secret'') (Num 30000) ''/v1''"

definition start_world :: world where
  "start_world = \<lparr> sdk = keyed_client, heap = [], sent = [], calls = [] \<rparr>"

text \<open>What is observed of a run: how it completed and what the callback was told.\<close>

definition observed :: "run \<Rightarrow> (completion \<times> (jsval \<times> jsval) list) option" where
  "observed r = map_option (\<lambda>p. (fst p, calls (snd p))) r"

definition trending_world :: world where
  "trending_world = snd (alloc (getTrending_descriptor (Obj [])) start_world)"

definition token_world :: world where
  "token_world = snd (alloc (oauth_descriptor keyed_client (Obj [])) start_world)"

definition related_world :: world where
  "related_world =
     snd (alloc (getRelatedContent_descriptor
                   (Obj [(''id'', Str ''abc''), (''cursor'', Str []), (''count'', Num 0), (''from'', Null)]))
            start_world)"

text \<open>How a run completed, and how often it dispatched the descriptor at \<open>a\<close>.\<close>

definition outcome :: "run \<Rightarrow> completion option" where
  "outcome r = map_option fst r"

definition tried :: "addr \<Rightarrow> run \<Rightarrow> nat option" where
  "tried a r = map_option (\<lambda>p. attempts a (snd p)) r"

definition final_heap :: "run \<Rightarrow> descriptor list option" where
  "final_heap r = map_option (\<lambda>p. heap (snd p)) r"

text \<open>The addresses of the descriptors dispatched in the course of a run, in order.\<close>

definition dispatched :: "run \<Rightarrow> addr list option" where
  "dispatched r = map_option (\<lambda>p. map fst (sent (snd p))) r"

text \<open>
  The state in which a retry runs. \<open>w\<close> is the state at the call and \<open>w1\<close> the state
  after the request \<open>h\<close> was prepared from the descriptor at \<open>a\<close>; since then the token
  request \<open>h'\<close>, built from the fresh descriptor \<open>d'\<close>, has been dispatched, the instance
  holds the token \<open>t\<close> of type \<open>ty\<close>, and the counter of the descriptor at \<open>a\<close> has been
  overwritten.
\<close>

definition retry_world ::
  "addr \<Rightarrow> world \<Rightarrow> world \<Rightarrow> http_options \<Rightarrow> jsval \<Rightarrow> jsval \<Rightarrow> descriptor \<Rightarrow> http_options \<Rightarrow> world" where
  "retry_world a w w1 h t ty d' h' =
     w\<lparr> sdk := (sdk w)\<lparr> access_token := t, token_type := ty \<rparr>,
        heap := (heap w)[a := (heap w1 ! a)\<lparr> counter := Some (counter_or_0 (heap w ! a) + 1) \<rparr>] @ [d'],
        sent := sent w @ [(a, h), (length (heap w), h')] \<rparr>"

text \<open>The requests and states that preparing the sample descriptors yields.\<close>

definition trending_request :: http_options where
  "trending_request =
     \<lparr> request = \<lparr> req_headers = Null, req_method = ''GET'', req_payload = Null,
                   req_url = ''https://api.gfycat.com/v1/gfycats/trending?count=100'' \<rparr>,
       http_timeout = Num 30000 \<rparr>"

definition trending_prepared :: world where
  "trending_prepared =
     start_world\<lparr> heap := [(getTrending_descriptor (Obj []))\<lparr> query := Obj [(''count'', Num 100)] \<rparr>] \<rparr>"

definition token_request :: http_options where
  "token_request =
     \<lparr> request = \<lparr> req_headers = Null, req_method = ''POST'',
                   req_payload = Obj [(''client_id'', Str ''id''), (''client_secret'', Str ''secret''),
                                      (''grant_type'', Str ''client_credentials'')],
                   req_url = ''https://api.gfycat.com/v1/oauth/token'' \<rparr>,
       http_timeout = Num 30000 \<rparr>"

definition related_request :: http_options where
  "related_request =
     \<lparr> request = \<lparr> req_headers = Null, req_method = ''GET'', req_payload = Null,
                   req_url = ''https://api.gfycat.com/v1/gfycats/abc/related?cursor=&count=0'' \<rparr>,
       http_timeout = Num 30000 \<rparr>"

definition related_stripped :: world where
  "related_stripped =
     start_world\<lparr> heap :=
       [(getRelatedContent_descriptor (Obj [(''id'', Str ''abc'')]))
          \<lparr> query := Obj [(''cursor'', Str []), (''count'', Num 0)] \<rparr>] \<rparr>"

section \<open>Auxiliary facts\<close>

text \<open>The recursion equations of the orchestrator are unfolded by hand, one call at a time.\<close>

declare sdk_request.simps [simp del] authenticate.simps [simp del]

lemma and_then_Undef [simp]: "and_then (Some (Undef, w)) k = k w"
  by (simp add: and_then_def)

lemma request_promise_unfold:
  assumes "promisesExist ev" and "counter_or_0 (heap w ! a) < retryLimit (sdk w)"
  shows "sdk_request (Suc n) ev (Some a) None w =
     (case prepare ev a w of
        (Inl e, w1) \<Rightarrow> Some (Thrown e, w1)
      | (Inr h, w1) \<Rightarrow>
          (case dispatch ev a h w1 of
             (Resolve res, w2) \<Rightarrow> Some (Fulfilled res, w2)
           | (Reject err, w2) \<Rightarrow>
               if err = Num 401 \<and> api (heap w2 ! a) \<noteq> ''/oauth''
               then (case authenticate n ev (Obj []) None w2 of
                       None \<Rightarrow> None
                     | Some (Fulfilled res, w3) \<Rightarrow>
                         (case sdk_request n ev (Some a) None
                                 (set_counter a (counter_or_0 (heap w ! a) + 1) w3) of
                            None \<Rightarrow> None
                          | Some (c, w4) \<Rightarrow> Some (settle c, w4))
                     | Some (Rejected e, w3) \<Rightarrow> Some (Rejected e, w3)
                     | Some (Thrown e, w3) \<Rightarrow> Some (Rejected e, w3)
                     | Some (Undef, w3) \<Rightarrow> Some (Rejected js_TypeError, w3))
               else Some (Rejected err, w2)))"
  using assms
  by (simp add: sdk_request.simps Let_def split: prod.splits sum.splits reply.splits)

lemma request_callback_unfold:
  assumes "counter_or_0 (heap w ! a) < retryLimit (sdk w)"
  shows "sdk_request (Suc n) ev (Some a) (Some cb) w =
     (case prepare ev a w of
        (Inl e, w1) \<Rightarrow> Some (Thrown e, w1)
      | (Inr h, w1) \<Rightarrow>
          (case dispatch ev a h w1 of
             (Resolve res, w2) \<Rightarrow> returns_undefined (cb Null res w2)
           | (Reject err, w2) \<Rightarrow>
               if err = Num 401 \<and> api (heap w2 ! a) \<noteq> ''/oauth''
               then returns_undefined
                      (authenticate n ev (Obj [])
                         (Some (\<lambda>err res w'.
                            if truthy err then cb err Undefined w'
                            else sdk_request n ev (Some a) (Some cb)
                                   (set_counter a (counter_or_0 (heap w ! a) + 1) w')))
                         w2)
               else returns_undefined (cb err Undefined w2)))"
  using assms
  by (simp add: sdk_request.simps Let_def split: prod.splits sum.splits reply.splits)

subsection \<open>What the preparation of a request leaves\<close>

lemma attach_token_frame:
  "attach_token c d = Some d1 \<Longrightarrow>
     api d1 = api d \<and> endpoint d1 = endpoint d \<and> method d1 = method d \<and> query d1 = query d
     \<and> payload d1 = payload d \<and> timeout d1 = timeout d \<and> counter d1 = counter d
     \<and> (headers d \<noteq> Null \<longrightarrow> headers d1 \<noteq> Null)"
  by (auto simp: attach_token_def split: if_splits jsval.splits)

lemma attach_token_total: "headers d \<noteq> Null \<Longrightarrow> \<exists>d1. attach_token c d = Some d1"
  by (auto simp: attach_token_def split: if_splits jsval.splits)

lemma build_query_frame:
  "build_query ev d = Some (qs, d2) \<Longrightarrow>
     api d2 = api d \<and> endpoint d2 = endpoint d \<and> method d2 = method d \<and> headers d2 = headers d
     \<and> payload d2 = payload d \<and> timeout d2 = timeout d \<and> counter d2 = counter d
     \<and> query d2 \<noteq> Null"
  by (auto simp: build_query_def split: if_splits jsval.splits)

lemma build_query_total: "query d \<noteq> Null \<Longrightarrow> \<exists>qs d2. build_query ev d = Some (qs, d2)"
  by (auto simp: build_query_def split: if_splits jsval.splits)

lemma prepare_Inr:
  assumes "prepare ev a w = (Inr h, w1)"
  shows "\<exists>d1 qs d2. attach_token (sdk w) (heap w ! a) = Some d1 \<and> build_query ev d1 = Some (qs, d2)
           \<and> h = httpOptions (sdk w) d2 qs \<and> w1 = w\<lparr> heap := (heap w)[a := d2] \<rparr>"
  using assms by (auto simp: prepare_def split: option.splits)

lemma prepare_Inr_frame:
  assumes "prepare ev a w = (Inr h, w1)"
  shows "\<exists>qs d2. h = httpOptions (sdk w) d2 qs \<and> w1 = w\<lparr> heap := (heap w)[a := d2] \<rparr>
           \<and> api d2 = api (heap w ! a) \<and> endpoint d2 = endpoint (heap w ! a)
           \<and> counter d2 = counter (heap w ! a)
           \<and> (headers (heap w ! a) \<noteq> Null \<longrightarrow> headers d2 \<noteq> Null) \<and> query d2 \<noteq> Null"
proof -
  from prepare_Inr [OF assms] obtain d1 qs d2 where
    d1: "attach_token (sdk w) (heap w ! a) = Some d1" and d2: "build_query ev d1 = Some (qs, d2)"
    and h: "h = httpOptions (sdk w) d2 qs" and w1: "w1 = w\<lparr> heap := (heap w)[a := d2] \<rparr>"
    by blast
  note f1 = attach_token_frame [OF d1] and f2 = build_query_frame [OF d2]
  show ?thesis
    apply (rule exI [of _ qs], rule exI [of _ d2])
    using f1 f2 h w1 apply simp
    done
qed

lemma prepare_ok:
  assumes "headers (heap w ! a) \<noteq> Null" and "query (heap w ! a) \<noteq> Null"
  shows "\<exists>h w1. prepare ev a w = (Inr h, w1)"
proof -
  obtain d1 where d1: "attach_token (sdk w) (heap w ! a) = Some d1"
    using attach_token_total [OF assms(1)] by blast
  from attach_token_frame [OF d1] assms(2) have "query d1 \<noteq> Null" by simp
  then obtain qs d2 where d2: "build_query ev d1 = Some (qs, d2)"
    using build_query_total by blast
  show ?thesis by (simp add: prepare_def d1 d2)
qed

subsection \<open>Authentication, promise convention\<close>

lemma oauth_counter [simp]: "counter_or_0 (oauth_descriptor c opts) = 0"
  by (simp add: counter_or_0_def oauth_descriptor_def)

lemma oauth_fields [simp]:
  "api (oauth_descriptor c opts) = ''/oauth''"
  "headers (oauth_descriptor c opts) = Undefined"
  "query (oauth_descriptor c opts) = Undefined"
  by (simp_all add: oauth_descriptor_def)

lemma token_request_promise:
  assumes "promisesExist ev" and "0 < retryLimit (sdk w)"
  shows "\<exists>h d'. api d' = ''/oauth'' \<and>
     sdk_request (Suc n) ev (Some (length (heap w))) None (w\<lparr> heap := heap w @ [oauth_descriptor c opts] \<rparr>) =
       Some (case httpService ev (map snd (sent w)) h of Resolve res \<Rightarrow> Fulfilled res | Reject err \<Rightarrow> Rejected err,
             w\<lparr> heap := heap w @ [d'], sent := sent w @ [(length (heap w), h)] \<rparr>)"
proof -
  let ?a = "length (heap w)"
  let ?w1 = "w\<lparr> heap := heap w @ [oauth_descriptor c opts] \<rparr>"
  have at: "heap ?w1 ! ?a = oauth_descriptor c opts" by simp
  have "headers (heap ?w1 ! ?a) \<noteq> Null" "query (heap ?w1 ! ?a) \<noteq> Null"
    by (simp_all add: at del: select_convs)
  from prepare_ok [OF this, of ev]
  obtain h w1' where p0: "prepare ev ?a ?w1 = (Inr h, w1')"
    by blast
  from prepare_Inr_frame [OF p0]
  obtain d2 where p: "prepare ev ?a ?w1 = (Inr h, ?w1\<lparr> heap := (heap ?w1)[?a := d2] \<rparr>)"
    and d2: "api d2 = api (heap ?w1 ! ?a)"
    using p0 by blast
  have d2': "api d2 = ''/oauth''" using d2 by simp
  have c: "counter_or_0 (heap ?w1 ! ?a) < retryLimit (sdk ?w1)"
    using assms(2) by simp
  have pe: "promisesExist ev" by fact
  show ?thesis
    apply (rule exI [of _ h], rule exI [of _ d2])
    apply (simp only: request_promise_unfold [OF pe c] p)
    apply (simp add: dispatch_def d2' split: reply.splits)
    done
qed

lemma authenticate_promise_unfold:
  assumes "has_keys (sdk w)"
  shows "authenticate (Suc m) ev options None w =
     (case sdk_request m ev (Some (length (heap w))) None
             (w\<lparr> heap := heap w @ [oauth_descriptor (sdk w) (if truthy options then options else Obj [])] \<rparr>) of
        None \<Rightarrow> None
      | Some (Fulfilled res, w2) \<Rightarrow>
          (case sdk_setToken res (sdk w2) of
             None \<Rightarrow> Some (Fulfilled Undefined, w2)
           | Some c \<Rightarrow> Some (Fulfilled Undefined, w2\<lparr> sdk := c \<rparr>))
      | Some (Rejected e, w2) \<Rightarrow> Some (Fulfilled Undefined, w2)
      | Some (Thrown e, w2) \<Rightarrow> Some (Thrown e, w2)
      | Some (Undef, w2) \<Rightarrow> Some (Thrown js_TypeError, w2))"
  using assms
  by (simp add: authenticate.simps has_keys_def alloc_def Let_def)

lemma setToken_shape:
  "sdk_setToken res c = Some c' \<Longrightarrow> \<exists>t ty. c' = c\<lparr> access_token := t, token_type := ty \<rparr>"
  by (auto simp: sdk_setToken_def split: option.splits)

lemma authenticate_promise:
  assumes "has_keys (sdk w)" and "promisesExist ev" and "0 < retryLimit (sdk w)"
  shows "\<exists>h d' t ty. api d' = ''/oauth'' \<and>
     authenticate (Suc (Suc n)) ev options None w =
       Some (Fulfilled Undefined,
             w\<lparr> sdk := (sdk w)\<lparr> access_token := t, token_type := ty \<rparr>,
                heap := heap w @ [d'], sent := sent w @ [(length (heap w), h)] \<rparr>)"
proof -
  let ?opts = "if truthy options then options else Obj []"
  from token_request_promise [OF assms(2,3), of n "sdk w" ?opts]
  obtain h d' where d': "api d' = ''/oauth''"
    and r: "sdk_request (Suc n) ev (Some (length (heap w))) None
              (w\<lparr> heap := heap w @ [oauth_descriptor (sdk w) ?opts] \<rparr>) =
       Some (case httpService ev (map snd (sent w)) h of Resolve res \<Rightarrow> Fulfilled res | Reject err \<Rightarrow> Rejected err,
             w\<lparr> heap := heap w @ [d'], sent := sent w @ [(length (heap w), h)] \<rparr>)"
    by blast
  let ?w2 = "w\<lparr> heap := heap w @ [d'], sent := sent w @ [(length (heap w), h)] \<rparr>"
  have unf: "authenticate (Suc (Suc n)) ev options None w =
      (case httpService ev (map snd (sent w)) h of
         Resolve res \<Rightarrow>
           (case sdk_setToken res (sdk w) of
              None \<Rightarrow> Some (Fulfilled Undefined, ?w2)
            | Some c \<Rightarrow> Some (Fulfilled Undefined, ?w2\<lparr> sdk := c \<rparr>))
       | Reject err \<Rightarrow> Some (Fulfilled Undefined, ?w2))"
    unfolding authenticate_promise_unfold [OF assms(1)] r
    by (simp split: reply.splits)
  show ?thesis
  proof (cases "httpService ev (map snd (sent w)) h")
    case (Reject err)
    show ?thesis
      apply (rule exI [of _ h], rule exI [of _ d'])
      apply (rule exI [of _ "access_token (sdk w)"], rule exI [of _ "token_type (sdk w)"])
      apply (simp add: unf Reject d')
      done
  next
    case (Resolve res)
    show ?thesis
    proof (cases "sdk_setToken res (sdk w)")
      case None
      show ?thesis
        apply (rule exI [of _ h], rule exI [of _ d'])
        apply (rule exI [of _ "access_token (sdk w)"], rule exI [of _ "token_type (sdk w)"])
        apply (simp add: unf Resolve None d')
        done
    next
      case (Some c)
      then obtain t ty where c: "c = (sdk w)\<lparr> access_token := t, token_type := ty \<rparr>"
        using setToken_shape by blast
      show ?thesis
        apply (rule exI [of _ h], rule exI [of _ d'])
        apply (rule exI [of _ t], rule exI [of _ ty])
        apply (simp add: unf Resolve Some d' c)
        done
    qed
  qed
qed

subsection \<open>One retry, promise convention\<close>

lemma retry_step_promise:
  assumes pe: "promisesExist ev" and keys: "has_keys (sdk w)" and a: "a < length (heap w)"
    and c0: "0 \<le> counter_or_0 (heap w ! a)"
    and lt: "counter_or_0 (heap w ! a) < retryLimit (sdk w)"
    and op: "api (heap w ! a) \<noteq> ''/oauth''"
    and p: "prepare ev a w = (Inr h, w1)"
    and rep: "httpService ev (map snd (sent w)) h = Reject (Num 401)"
  shows "\<exists>h' d' t ty. api d' = ''/oauth'' \<and>
     sdk_request (Suc (Suc (Suc n))) ev (Some a) None w =
       (case sdk_request (Suc (Suc n)) ev (Some a) None
               (w\<lparr> sdk := (sdk w)\<lparr> access_token := t, token_type := ty \<rparr>,
                   heap := (heap w)[a := (heap w1 ! a)\<lparr> counter := Some (counter_or_0 (heap w ! a) + 1) \<rparr>] @ [d'],
                   sent := sent w @ [(a, h), (length (heap w), h')] \<rparr>) of
          None \<Rightarrow> None
        | Some (r, w') \<Rightarrow> Some (settle r, w'))"
proof -
  from prepare_Inr_frame [OF p] obtain qs d2 where
    h: "h = httpOptions (sdk w) d2 qs" and w1: "w1 = w\<lparr> heap := (heap w)[a := d2] \<rparr>"
    and api2: "api d2 = api (heap w ! a)"
    by blast
  let ?w2 = "w1\<lparr> sent := sent w1 @ [(a, h)] \<rparr>"
  have at: "heap w1 ! a = d2" using w1 a by simp
  have k2: "has_keys (sdk ?w2)" "0 < retryLimit (sdk ?w2)"
    using keys c0 lt w1 by simp_all
  from authenticate_promise [OF k2(1) pe k2(2), of n "Obj []"]
  obtain h' d' t ty where d': "api d' = ''/oauth''"
    and au: "authenticate (Suc (Suc n)) ev (Obj []) None ?w2 =
       Some (Fulfilled Undefined,
             ?w2\<lparr> sdk := (sdk ?w2)\<lparr> access_token := t, token_type := ty \<rparr>,
                  heap := heap ?w2 @ [d'], sent := sent ?w2 @ [(length (heap ?w2), h')] \<rparr>)"
    by blast
  have d: "dispatch ev a h w1 = (Reject (Num 401), ?w2)"
    using rep w1 by (simp add: dispatch_def)
  have op2: "api (heap ?w2 ! a) \<noteq> ''/oauth''"
    using op api2 at by simp
  have weq: "set_counter a (counter_or_0 (heap w ! a) + 1)
          (?w2\<lparr> sdk := (sdk ?w2)\<lparr> access_token := t, token_type := ty \<rparr>,
                  heap := heap ?w2 @ [d'], sent := sent ?w2 @ [(length (heap ?w2), h')] \<rparr>)
        = w\<lparr> sdk := (sdk w)\<lparr> access_token := t, token_type := ty \<rparr>,
                   heap := (heap w)[a := (heap w1 ! a)\<lparr> counter := Some (counter_or_0 (heap w ! a) + 1) \<rparr>] @ [d'],
                   sent := sent w @ [(a, h), (length (heap w), h')] \<rparr>"
    by (simp add: w1 set_counter_def a nth_append list_update_append1)
  show ?thesis
    apply (rule exI [of _ h'], rule exI [of _ d'], rule exI [of _ t], rule exI [of _ ty])
    apply (simp only: request_promise_unfold [OF pe lt] p d prod.case sum.case reply.case op2 au
        simp_thms if_True option.case completion.case d' weq)
    done
qed

lemma request_promise_limit:
  assumes "promisesExist ev" and "retryLimit (sdk w) \<le> counter_or_0 (heap w ! a)"
  shows "sdk_request (Suc n) ev (Some a) None w = Some (Rejected (Str ''Retry limit reached''), w)"
  using assms by (simp add: sdk_request.simps Let_def)

lemma exhaust_promise:
  assumes pe: "promisesExist ev"
    and H1: "\<forall>hist h q. req_url (request h) = U @ q \<longrightarrow> httpService ev hist h = Reject (Num 401)"
  shows "has_keys (sdk w) \<Longrightarrow> a < length (heap w) \<Longrightarrow> api (heap w ! a) \<noteq> ''/oauth'' \<Longrightarrow>
     headers (heap w ! a) \<noteq> Null \<Longrightarrow> query (heap w ! a) \<noteq> Null \<Longrightarrow>
     apiUrl (sdk w) @ api (heap w ! a) @ endpoint (heap w ! a) = U \<Longrightarrow>
     0 \<le> counter_or_0 (heap w ! a) \<Longrightarrow>
     retryLimit (sdk w) - counter_or_0 (heap w ! a) = int k \<Longrightarrow>
     \<exists>w'. sdk_request (Suc (Suc (k + n))) ev (Some a) None w =
             Some (Rejected (Str ''Retry limit reached''), w')
          \<and> attempts a w' = attempts a w + k"
proof (induction k arbitrary: w)
  case 0
  then have "retryLimit (sdk w) \<le> counter_or_0 (heap w ! a)" by simp
  from request_promise_limit [OF pe this] show ?case by simp
next
  case (Suc k)
  let ?c = "counter_or_0 (heap w ! a)"
  have lt: "?c < retryLimit (sdk w)" using Suc.prems(8) by simp
  from prepare_ok [OF Suc.prems(4,5), of ev] obtain h w1 where p: "prepare ev a w = (Inr h, w1)"
    by blast
  from prepare_Inr_frame [OF p] obtain qs d2 where
    h: "h = httpOptions (sdk w) d2 qs" and w1: "w1 = w\<lparr> heap := (heap w)[a := d2] \<rparr>"
    and f: "api d2 = api (heap w ! a)" "endpoint d2 = endpoint (heap w ! a)"
      "headers d2 \<noteq> Null" "query d2 \<noteq> Null"
    using Suc.prems(4) by blast
  have "req_url (request h) = U @ qs"
    using h f Suc.prems(6) by (simp add: httpOptions_def)
  with H1 have rep: "httpService ev (map snd (sent w)) h = Reject (Num 401)" by blast
  from retry_step_promise [OF pe Suc.prems(1,2,7) lt Suc.prems(3) p rep, of "k + n"]
  obtain h' d' t ty where
    step: "sdk_request (Suc (Suc (Suc (k + n)))) ev (Some a) None w =
       (case sdk_request (Suc (Suc (k + n))) ev (Some a) None
               (w\<lparr> sdk := (sdk w)\<lparr> access_token := t, token_type := ty \<rparr>,
                   heap := (heap w)[a := (heap w1 ! a)\<lparr> counter := Some (?c + 1) \<rparr>] @ [d'],
                   sent := sent w @ [(a, h), (length (heap w), h')] \<rparr>) of
          None \<Rightarrow> None
        | Some (r, w') \<Rightarrow> Some (settle r, w'))"
    by blast
  let ?W = "w\<lparr> sdk := (sdk w)\<lparr> access_token := t, token_type := ty \<rparr>,
                   heap := (heap w)[a := (heap w1 ! a)\<lparr> counter := Some (?c + 1) \<rparr>] @ [d'],
                   sent := sent w @ [(a, h), (length (heap w), h')] \<rparr>"
  have a: "a < length (heap w)" by fact
  have at1: "heap w1 ! a = d2" using w1 a by simp
  have atW: "heap ?W ! a = d2\<lparr> counter := Some (?c + 1) \<rparr>"
    using a at1 by (simp add: nth_append)
  have i1: "has_keys (sdk ?W)" using Suc.prems(1) by (simp add: has_keys_def)
  have i2: "a < length (heap ?W)" using a by simp
  have i3: "api (heap ?W ! a) \<noteq> ''/oauth''" using Suc.prems(3) f by (simp only: atW) simp
  have i4: "headers (heap ?W ! a) \<noteq> Null" using f by (simp only: atW) simp
  have i5: "query (heap ?W ! a) \<noteq> Null" using f by (simp only: atW) simp
  have i6: "apiUrl (sdk ?W) @ api (heap ?W ! a) @ endpoint (heap ?W ! a) = U"
    using Suc.prems(6) f by (simp only: atW) simp
  have i7: "0 \<le> counter_or_0 (heap ?W ! a)"
    using Suc.prems(7) by (simp only: atW) (simp add: counter_or_0_def)
  have i8: "retryLimit (sdk ?W) - counter_or_0 (heap ?W ! a) = int k"
    using Suc.prems(8) by (simp only: atW) (simp add: counter_or_0_def)
  from Suc.IH [OF i1 i2 i3 i4 i5 i6 i7 i8] obtain w' where
    r: "sdk_request (Suc (Suc (k + n))) ev (Some a) None ?W =
             Some (Rejected (Str ''Retry limit reached''), w')"
    and n: "attempts a w' = attempts a ?W + k"
    by blast
  have "attempts a ?W = attempts a w + 1"
    using a by (simp add: attempts_def)
  with n have n': "attempts a w' = attempts a w + Suc k" by simp
  have "sdk_request (Suc (Suc (Suc k + n))) ev (Some a) None w =
          Some (Rejected (Str ''Retry limit reached''), w')"
    by (simp only: add_Suc step r option.case prod.case settle.simps)
  with n' show ?case by blast
qed

subsection \<open>Authentication and one retry, callback convention\<close>

lemma returns_undefined_idem [simp]: "returns_undefined (returns_undefined r) = returns_undefined r"
  by (auto simp: returns_undefined_def and_then_def split: option.splits completion.splits)

lemma prepare_token_request:
  "\<exists>h d'. api d' = ''/oauth'' \<and> req_url (request h) = apiUrl (sdk w) @ ''/oauth/token'' \<and>
     prepare ev (length (heap w)) (w\<lparr> heap := heap w @ [oauth_descriptor c opts] \<rparr>) =
       (Inr h, w\<lparr> heap := heap w @ [d'] \<rparr>)"
proof -
  let ?a = "length (heap w)"
  let ?w1 = "w\<lparr> heap := heap w @ [oauth_descriptor c opts] \<rparr>"
  have at: "heap ?w1 ! ?a = oauth_descriptor c opts" by simp
  obtain d1 where d1: "attach_token (sdk ?w1) (heap ?w1 ! ?a) = Some d1"
    using attach_token_total [of "heap ?w1 ! ?a" "sdk ?w1"] by (auto simp del: select_convs simp: at)
  note f = attach_token_frame [OF d1]
  have q: "build_query ev d1 = Some ([], d1)"
    using f by (simp add: build_query_def at del: select_convs)
  have p: "prepare ev ?a ?w1 = (Inr (httpOptions (sdk w) d1 []), w\<lparr> heap := heap w @ [d1] \<rparr>)"
    using d1 q by (simp add: prepare_def)
  have "api d1 = ''/oauth''" and "endpoint d1 = ''/token''"
    using f by (simp_all add: at oauth_descriptor_def del: select_convs)
  then have "req_url (request (httpOptions (sdk w) d1 [])) = apiUrl (sdk w) @ ''/oauth/token''"
    by (simp add: httpOptions_def)
  with p \<open>api d1 = ''/oauth''\<close> show ?thesis by blast
qed

lemma token_request_callback:
  assumes "0 < retryLimit (sdk w)"
  shows "\<exists>h d'. api d' = ''/oauth'' \<and> req_url (request h) = apiUrl (sdk w) @ ''/oauth/token'' \<and>
     (\<forall>K. sdk_request (Suc n) ev (Some (length (heap w))) (Some K)
            (w\<lparr> heap := heap w @ [oauth_descriptor c opts] \<rparr>) =
       returns_undefined
         (case httpService ev (map snd (sent w)) h of
            Resolve res \<Rightarrow> K Null res (w\<lparr> heap := heap w @ [d'], sent := sent w @ [(length (heap w), h)] \<rparr>)
          | Reject err \<Rightarrow> K err Undefined (w\<lparr> heap := heap w @ [d'], sent := sent w @ [(length (heap w), h)] \<rparr>)))"
proof -
  let ?a = "length (heap w)"
  let ?w1 = "w\<lparr> heap := heap w @ [oauth_descriptor c opts] \<rparr>"
  from prepare_token_request [of w ev c opts] obtain h d' where
    d': "api d' = ''/oauth''" and u: "req_url (request h) = apiUrl (sdk w) @ ''/oauth/token''"
    and p: "prepare ev ?a ?w1 = (Inr h, w\<lparr> heap := heap w @ [d'] \<rparr>)"
    by blast
  have c: "counter_or_0 (heap ?w1 ! ?a) < retryLimit (sdk ?w1)"
    using assms by simp
  have "\<forall>K. sdk_request (Suc n) ev (Some ?a) (Some K) ?w1 =
       returns_undefined
         (case httpService ev (map snd (sent w)) h of
            Resolve res \<Rightarrow> K Null res (w\<lparr> heap := heap w @ [d'], sent := sent w @ [(?a, h)] \<rparr>)
          | Reject err \<Rightarrow> K err Undefined (w\<lparr> heap := heap w @ [d'], sent := sent w @ [(?a, h)] \<rparr>))"
    apply (rule allI)
    apply (simp only: request_callback_unfold [OF c] p)
    apply (simp add: dispatch_def d' split: reply.splits)
    done
  with d' u show ?thesis by blast
qed

lemma authenticate_callback_unfold:
  assumes "has_keys (sdk w)"
  shows "authenticate (Suc m) ev options (Some cb) w =
     sdk_request m ev (Some (length (heap w)))
       (Some (\<lambda>err res w'.
          if \<not> truthy err
          then (case sdk_setToken res (sdk w') of
                  None \<Rightarrow> Some (Thrown js_TypeError, w')
                | Some c \<Rightarrow> cb Null res (w'\<lparr> sdk := c \<rparr>))
          else cb err Undefined w'))
       (w\<lparr> heap := heap w @ [oauth_descriptor (sdk w) (if truthy options then options else Obj [])] \<rparr>)"
  using assms
  by (simp add: authenticate.simps has_keys_def alloc_def Let_def)

lemma setToken_value:
  "\<not> loose_null res \<Longrightarrow>
   sdk_setToken res c = Some (c\<lparr> access_token := read res ''access_token'', token_type := read res ''token_type'' \<rparr>)"
  by (cases res) (simp_all add: sdk_setToken_def read_def)

lemma retry_step_callback:
  assumes keys: "has_keys (sdk w)" and a: "a < length (heap w)"
    and c0: "0 \<le> counter_or_0 (heap w ! a)"
    and lt: "counter_or_0 (heap w ! a) < retryLimit (sdk w)"
    and op: "api (heap w ! a) \<noteq> ''/oauth''"
    and p: "prepare ev a w = (Inr h, w1)"
    and rep: "httpService ev (map snd (sent w)) h = Reject (Num 401)"
    and tok: "\<forall>hist x. req_url (request x) = apiUrl (sdk w) @ ''/oauth/token''
                \<longrightarrow> httpService ev hist x = Resolve res"
    and res: "\<not> loose_null res"
  shows "\<exists>h' d'. api d' = ''/oauth'' \<and>
     sdk_request (Suc (Suc (Suc n))) ev (Some a) (Some cb) w =
       returns_undefined
         (sdk_request (Suc (Suc n)) ev (Some a) (Some cb)
            (w\<lparr> sdk := (sdk w)\<lparr> access_token := read res ''access_token'',
                                token_type := read res ''token_type'' \<rparr>,
                heap := (heap w)[a := (heap w1 ! a)\<lparr> counter := Some (counter_or_0 (heap w ! a) + 1) \<rparr>] @ [d'],
                sent := sent w @ [(a, h), (length (heap w), h')] \<rparr>))"
proof -
  from prepare_Inr_frame [OF p] obtain qs d2 where
    w1: "w1 = w\<lparr> heap := (heap w)[a := d2] \<rparr>"
    and api2: "api d2 = api (heap w ! a)"
    by blast
  let ?w2 = "w1\<lparr> sent := sent w1 @ [(a, h)] \<rparr>"
  let ?c = "counter_or_0 (heap w ! a)"
  let ?K = "\<lambda>err res w'.
              if truthy err then cb err Undefined w'
              else sdk_request (Suc (Suc n)) ev (Some a) (Some cb) (set_counter a (?c + 1) w')"
  let ?K' = "\<lambda>err res w'.
          if \<not> truthy err
          then (case sdk_setToken res (sdk w') of
                  None \<Rightarrow> Some (Thrown js_TypeError, w')
                | Some c \<Rightarrow> ?K Null res (w'\<lparr> sdk := c \<rparr>))
          else ?K err Undefined w'"
  have at: "heap w1 ! a = d2" using w1 a by simp
  have k2: "has_keys (sdk ?w2)" "0 < retryLimit (sdk ?w2)"
    using keys c0 lt w1 by simp_all
  from token_request_callback [OF k2(2), of n ev "sdk ?w2" "Obj []"]
  obtain h' d' where d': "api d' = ''/oauth''"
    and u: "req_url (request h') = apiUrl (sdk ?w2) @ ''/oauth/token''"
    and tr: "\<And>K. sdk_request (Suc n) ev (Some (length (heap ?w2))) (Some K)
            (?w2\<lparr> heap := heap ?w2 @ [oauth_descriptor (sdk ?w2) (Obj [])] \<rparr>) =
       returns_undefined
         (case httpService ev (map snd (sent ?w2)) h' of
            Resolve res \<Rightarrow> K Null res (?w2\<lparr> heap := heap ?w2 @ [d'], sent := sent ?w2 @ [(length (heap ?w2), h')] \<rparr>)
          | Reject err \<Rightarrow> K err Undefined (?w2\<lparr> heap := heap ?w2 @ [d'], sent := sent ?w2 @ [(length (heap ?w2), h')] \<rparr>))"
    by blast
  have granted: "httpService ev (map snd (sent ?w2)) h' = Resolve res"
    using tok u w1 by simp
  let ?W = "?w2\<lparr> heap := heap ?w2 @ [d'], sent := sent ?w2 @ [(length (heap ?w2), h')] \<rparr>"
  have st: "sdk_setToken res (sdk ?W) =
      Some ((sdk ?W)\<lparr> access_token := read res ''access_token'', token_type := read res ''token_type'' \<rparr>)"
    using res by (rule setToken_value)
  have au: "authenticate (Suc (Suc n)) ev (Obj []) (Some ?K) ?w2 =
      returns_undefined (sdk_request (Suc (Suc n)) ev (Some a) (Some cb)
         (set_counter a (?c + 1)
            (?W\<lparr> sdk := (sdk ?W)\<lparr> access_token := read res ''access_token'', token_type := read res ''token_type'' \<rparr> \<rparr>)))"
    apply (simp only: authenticate_callback_unfold [OF k2(1)] truthy.simps if_True)
    apply (simp only: tr granted reply.case)
    apply (simp only: truthy.simps simp_thms if_True st option.case if_False)
    done
  have d: "dispatch ev a h w1 = (Reject (Num 401), ?w2)"
    using rep w1 by (simp add: dispatch_def)
  have op2: "api (heap ?w2 ! a) \<noteq> ''/oauth''"
    using op api2 at by simp
  have weq: "set_counter a (?c + 1)
            (?W\<lparr> sdk := (sdk ?W)\<lparr> access_token := read res ''access_token'', token_type := read res ''token_type'' \<rparr> \<rparr>)
        = w\<lparr> sdk := (sdk w)\<lparr> access_token := read res ''access_token'',
                                token_type := read res ''token_type'' \<rparr>,
                heap := (heap w)[a := (heap w1 ! a)\<lparr> counter := Some (?c + 1) \<rparr>] @ [d'],
                sent := sent w @ [(a, h), (length (heap w), h')] \<rparr>"
    by (simp add: w1 set_counter_def a nth_append list_update_append1)
  show ?thesis
    apply (rule exI [of _ h'], rule exI [of _ d'])
    apply (simp only: request_callback_unfold [OF lt] p d prod.case sum.case reply.case op2
        simp_thms if_True au returns_undefined_idem weq d')
    done
qed

subsection \<open>Objects and the constructor\<close>


lemma obj_delete_filter: "obj_delete k q = filter (\<lambda>p. fst p \<noteq> k) q"
  by (induction q) auto

lemma obj_get_distinct: "distinct (map fst q) \<Longrightarrow> (k, v) \<in> set q \<Longrightarrow> obj_get q k = v"
  by (induction q) (auto simp: rev_image_eqI)

lemma filter_keep_all: "(\<And>p. p \<in> set q \<Longrightarrow> P p) \<Longrightarrow> filter P q = q"
  by (induction q) auto

lemma omit_loop_set:
  "distinct (map fst q) \<Longrightarrow>
   omit_loop ks q = filter (\<lambda>p. \<not> (fst p \<in> set ks \<and> loose_null (snd p))) q"
proof (induction ks arbitrary: q)
  case Nil
  then show ?case by simp
next
  case (Cons k ks)
  let ?q1 = "if loose_null (obj_get q k) then obj_delete k q else q"
  have d1: "distinct (map fst ?q1)"
    using Cons.prems by (simp add: obj_delete_filter distinct_map_filter)
  have step: "?q1 = filter (\<lambda>p. \<not> (fst p = k \<and> loose_null (snd p))) q"
  proof (cases "loose_null (obj_get q k)")
    case True
    have "filter (\<lambda>p. fst p \<noteq> k) q = filter (\<lambda>p. \<not> (fst p = k \<and> loose_null (snd p))) q"
    proof (rule filter_cong [OF refl])
      fix p assume "p \<in> set q"
      then have "fst p = k \<Longrightarrow> obj_get q k = snd p"
        using obj_get_distinct [OF Cons.prems, of k "snd p"] by (cases p) auto
      with True show "(fst p \<noteq> k) = (\<not> (fst p = k \<and> loose_null (snd p)))" by auto
    qed
    with True show ?thesis by (simp add: obj_delete_filter)
  next
    case False
    have "filter (\<lambda>p. \<not> (fst p = k \<and> loose_null (snd p))) q = q"
    proof (rule filter_keep_all)
      fix p assume "p \<in> set q"
      then have "fst p = k \<Longrightarrow> obj_get q k = snd p"
        using obj_get_distinct [OF Cons.prems, of k "snd p"] by (cases p) auto
      with False show "\<not> (fst p = k \<and> loose_null (snd p))" by auto
    qed
    with False show ?thesis by simp
  qed
  have "omit_loop (k # ks) q = omit_loop ks ?q1" by simp
  also have "\<dots> = filter (\<lambda>p. \<not> (fst p \<in> set ks \<and> loose_null (snd p))) ?q1"
    using Cons.IH [OF d1] .
  also have "\<dots> = filter (\<lambda>p. \<not> (fst p \<in> set (k # ks) \<and> loose_null (snd p))) q"
    unfolding step by (auto intro: filter_cong)
  finally show ?case .
qed

lemma omit_nulls_filter:
  assumes "distinct (map fst q)"
  shows "omit_nulls q = filter (\<lambda>p. \<not> loose_null (snd p)) q"
proof -
  have "omit_nulls q = filter (\<lambda>p. \<not> (fst p \<in> set (map fst q) \<and> loose_null (snd p))) q"
    unfolding omit_nulls_def using assms by (rule omit_loop_set)
  also have "\<dots> = filter (\<lambda>p. \<not> loose_null (snd p)) q"
    by (rule filter_cong) auto
  finally show ?thesis .
qed

lemma loose_null_iff: "loose_null v = (v = Null \<or> v = Undefined)"
  by (cases v) auto

lemma test_prefix_sticks: "API_BASE_PATH m = ''/v1test'' \<Longrightarrow> API_BASE_PATH (snd (GfycatSDK options m)) = ''/v1test''"
  by (auto simp: GfycatSDK_def Let_def split: option.splits)

lemma constructions_keep_test_prefix:
  "API_BASE_PATH m = ''/v1test'' \<Longrightarrow> API_BASE_PATH (constructions os m) = ''/v1test''"
  by (induction os arbitrary: m) (auto simp: test_prefix_sticks)

lemma constructed_apiUrl:
  "GfycatSDK options m = (Inr c, m') \<Longrightarrow> apiUrl c = API_HOSTNAME @ API_BASE_PATH m'"
  by (auto simp: GfycatSDK_def Let_def new_client_def split: option.splits if_splits)

lemma anonymous_switches: "API_BASE_PATH (snd (GfycatSDK Undefined m)) = ''/v1test''"
  by (simp add: GfycatSDK_def)



lemma trending_url_401:
  "\<forall>hist h q. req_url (request h) = ''https://api.gfycat.com/v1/gfycats/trending'' @ q
      \<longrightarrow> unauthorized_always hist h = Reject (Num 401)"
  by (simp add: unauthorized_always_def is_token_request_def)

section \<open>The claims\<close>

text \<open>
  Counterexample to claim C1 as stated. The transport answers every request for the trending
  GIFs with 401 and every token request with a token; \<^verbatim>\<open>getTrending({})\<close> is called
  without a callback on a client with credentials. The promise is rejected with the string
  \<^verbatim>\<open>'Retry limit reached'\<close> of line 351, which is not the 401 the transport gave.
\<close>

theorem exhaustion_generic_counterexample:
  "observed (getTrending 6 (sample_env unauthorized_always) (Obj []) None start_world)
     = Some (Rejected (Str ''Retry limit reached''), [])
   \<and> Rejected (Str ''Retry limit reached'') \<noteq> Rejected (Num 401)"
  by code_simp

text \<open>
  Claim C1, amended. In the promise convention, on a client that holds a credential, take
  an operation that is not the authentication request itself, with a fresh descriptor
  (no counter), whose every transport dispatch fails with 401 while every token request
  is answered. With \<open>retryLimit + 2\<close> units of fuel or more the call returns: the
  operation has been dispatched exactly \<open>retryLimit\<close> times and the promise is rejected
  with the generic message \<^verbatim>\<open>'Retry limit reached'\<close>, not with the 401.
  (\<open>headers\<close> and \<open>query\<close> are not null, so that preparing the request raises no
  TypeError.)
\<close>

theorem retry_exhaustion_promise:
  assumes "promisesExist ev" and "has_keys (sdk w)" and "a < length (heap w)"
    and "api (heap w ! a) \<noteq> ''/oauth''"
    and "headers (heap w ! a) \<noteq> Null" and "query (heap w ! a) \<noteq> Null"
    and "counter (heap w ! a) = None" and "0 \<le> retryLimit (sdk w)"
    and "\<forall>hist h q. req_url (request h) = apiUrl (sdk w) @ api (heap w ! a) @ endpoint (heap w ! a) @ q
           \<longrightarrow> httpService ev hist h = Reject (Num 401)"
    and "\<forall>hist h. req_url (request h) = apiUrl (sdk w) @ ''/oauth/token''
           \<longrightarrow> (\<exists>res. httpService ev hist h = Resolve res)"
  shows "\<exists>w'. sdk_request (nat (retryLimit (sdk w)) + 2 + n) ev (Some a) None w =
                 Some (Rejected (Str ''Retry limit reached''), w')
            \<and> attempts a w' = attempts a w + nat (retryLimit (sdk w))"
proof -
  have c: "counter_or_0 (heap w ! a) = 0" using assms(7) by (simp add: counter_or_0_def)
  have H1: "\<forall>hist h q. req_url (request h) = (apiUrl (sdk w) @ api (heap w ! a) @ endpoint (heap w ! a)) @ q
           \<longrightarrow> httpService ev hist h = Reject (Num 401)"
    using assms(9) by simp
  have "\<exists>w'. sdk_request (Suc (Suc (nat (retryLimit (sdk w)) + n))) ev (Some a) None w =
             Some (Rejected (Str ''Retry limit reached''), w')
          \<and> attempts a w' = attempts a w + nat (retryLimit (sdk w))"
    by (rule exhaust_promise [OF assms(1) H1 assms(2,3,4,5,6) refl]) (simp_all add: c assms(8))
  then show ?thesis by simp
qed

text \<open>
  The amended claim C1 at a concrete input: the descriptor of \<^verbatim>\<open>getTrending({})\<close>, the
  transport that answers 401 to everything but the token request, \<open>retryLimit = 2\<close>.
\<close>

theorem retry_exhaustion_promise_witness:
  "outcome (sdk_request 4 (sample_env unauthorized_always) (Some 0) None trending_world)
     = Some (Rejected (Str ''Retry limit reached''))
   \<and> tried 0 (sdk_request 4 (sample_env unauthorized_always) (Some 0) None trending_world) = Some 2"
proof -
  let ?ev = "sample_env unauthorized_always"
  have w: "trending_world = \<lparr> sdk = keyed_client, heap = [getTrending_descriptor (Obj [])], sent = [], calls = [] \<rparr>"
    by (simp add: trending_world_def alloc_def start_world_def)
  have h1: "promisesExist ?ev" by (simp add: sample_env_def)
  have h2: "has_keys (sdk trending_world)"
    by (simp add: w has_keys_def keyed_client_def new_client_def)
  have h3: "0 < length (heap trending_world)" by (simp add: w)
  have h4: "api (heap trending_world ! 0) \<noteq> ''/oauth''"
    by (simp add: w getTrending_descriptor_def)
  have h5: "headers (heap trending_world ! 0) \<noteq> Null" "query (heap trending_world ! 0) \<noteq> Null"
    "counter (heap trending_world ! 0) = None"
    by (simp_all add: w getTrending_descriptor_def)
  have h6: "0 \<le> retryLimit (sdk trending_world)" "nat (retryLimit (sdk trending_world)) = 2"
    by (simp_all add: w keyed_client_def new_client_def)
  have h7: "\<forall>hist h q. req_url (request h) = apiUrl (sdk trending_world) @ api (heap trending_world ! 0) @ endpoint (heap trending_world ! 0) @ q
           \<longrightarrow> httpService ?ev hist h = Reject (Num 401)"
    using trending_url_401
    by (simp add: w keyed_client_def new_client_def API_HOSTNAME_def getTrending_descriptor_def sample_env_def)
  have h8: "\<forall>hist h. req_url (request h) = apiUrl (sdk trending_world) @ ''/oauth/token''
           \<longrightarrow> (\<exists>res. httpService ?ev hist h = Resolve res)"
    by (simp add: w keyed_client_def new_client_def API_HOSTNAME_def sample_env_def
        unauthorized_always_def is_token_request_def)
  have a0: "attempts 0 trending_world = 0" by (simp add: w attempts_def)
  from retry_exhaustion_promise [OF h1 h2 h3 h4 h5 h6(1) h7 h8, of 0]
  obtain w' where
    r: "sdk_request (nat (retryLimit (sdk trending_world)) + 2 + 0) ?ev (Some 0) None trending_world
          = Some (Rejected (Str ''Retry limit reached''), w')"
    and n: "attempts 0 w' = attempts 0 trending_world + nat (retryLimit (sdk trending_world))"
    by blast
  have f: "nat (retryLimit (sdk trending_world)) + 2 + 0 = 4" by (simp add: h6(2))
  show ?thesis
    using r n unfolding f
    by (simp add: outcome_def tried_def a0 h6(2) del: sdk_request.simps)
qed

text \<open>
  Claim C2 at an input where the code departs from it. \<^verbatim>\<open>getTrending({}, callback)\<close>
  on a client with \<open>retryLimit = 2\<close>; the transport answers 401 to the first three
  requests for the trending GIFs. In the callback convention line 350 calls the callback
  with \<^verbatim>\<open>'Retry limit reached'\<close> and does not return: the request is dispatched again
  with counter 2 and with counter 3 (four dispatches of the descriptor at address 0), the
  callback is called three times, and the counter ends at 3.
\<close>

theorem callback_retry_beyond_limit:
  "retryLimit (sdk start_world) = 2
   \<and> observed (getTrending 12 (sample_env (unauthorized_first 3)) (Obj []) (Some user_callback) start_world)
       = Some (Undef, [(Str ''Retry limit reached'', Undefined),
                       (Str ''Retry limit reached'', Undefined),
                       (Null, gifs_body)])
   \<and> dispatched (getTrending 12 (sample_env (unauthorized_first 3)) (Obj []) (Some user_callback) start_world)
       = Some [0, 1, 0, 2, 0, 3, 0]
   \<and> map_option (map counter)
        (final_heap (getTrending 12 (sample_env (unauthorized_first 3)) (Obj []) (Some user_callback) start_world))
       = Some [Some 3, None, None, None]"
  by code_simp

text \<open>
  Claim C3 at inputs where the code departs from it. \<^verbatim>\<open>authenticate({})\<close> without a
  callback: when the token request fails with 500 the promise is fulfilled with undefined
  (the handler of line 99 does not return the rejection), and when it succeeds the promise
  is fulfilled with undefined as well (the handler of line 95 does not return the body).
  With a callback the same two requests report the error 500 and the body.
\<close>

theorem authenticate_promise_swallows:
  "observed (authenticate 4 (sample_env (always_status 500)) (Obj []) None start_world)
     = Some (Fulfilled Undefined, [])
   \<and> observed (authenticate 4 (sample_env unauthorized_always) (Obj []) None start_world)
     = Some (Fulfilled Undefined, [])
   \<and> observed (authenticate 4 (sample_env (always_status 500)) (Obj []) (Some user_callback) start_world)
     = Some (Undef, [(Num 500, Undefined)])
   \<and> observed (authenticate 4 (sample_env unauthorized_always) (Obj []) (Some user_callback) start_world)
     = Some (Undef, [(Null, token_body)])"
  by code_simp

text \<open>
  Counterexample to claim C4 as stated. The descriptor of \<^verbatim>\<open>getTrending({})\<close> lies at
  address 0 and has no counter; the transport answers 401 once. After the call, which
  succeeds on the retry, the dispatches came from the addresses 0, 1, 0 (the descriptor,
  the token request, the same descriptor again), the heap holds two objects and no copy,
  and the caller's descriptor at address 0 has counter 1.
\<close>

theorem descriptor_mutated_counterexample:
  "counter (heap trending_world ! 0) = None
   \<and> outcome (sdk_request 6 (sample_env (unauthorized_first 1)) (Some 0) None trending_world)
       = Some (Fulfilled gifs_body)
   \<and> dispatched (sdk_request 6 (sample_env (unauthorized_first 1)) (Some 0) None trending_world)
       = Some [0, 1, 0]
   \<and> map_option (map counter)
        (final_heap (sdk_request 6 (sample_env (unauthorized_first 1)) (Some 0) None trending_world))
       = Some [Some 1, None]"
  by code_simp

text \<open>
  Claim C4, amended. When the dispatch of an operation that is not the authentication
  request fails with 401 (counter below the limit, client with a credential), the
  orchestrator calls itself on the same descriptor object, at the same address \<open>a\<close>, after
  overwriting that object's counter in place with the previous counter plus one; the only
  object allocated in between is the descriptor of the token request. This holds in the
  promise convention, and in the callback convention when the token request is answered
  with a body that is neither null nor undefined.
\<close>

theorem retry_reuses_descriptor:
  assumes "has_keys (sdk w)" and "a < length (heap w)"
    and "0 \<le> counter_or_0 (heap w ! a)"
    and "counter_or_0 (heap w ! a) < retryLimit (sdk w)"
    and "api (heap w ! a) \<noteq> ''/oauth''"
    and "prepare ev a w = (Inr h, w1)"
    and "httpService ev (map snd (sent w)) h = Reject (Num 401)"
  shows "(promisesExist ev \<longrightarrow>
           (\<exists>h' d' t ty. api d' = ''/oauth'' \<and>
              sdk_request (Suc (Suc (Suc n))) ev (Some a) None w =
                (case sdk_request (Suc (Suc n)) ev (Some a) None (retry_world a w w1 h t ty d' h') of
                   None \<Rightarrow> None
                 | Some (r, w') \<Rightarrow> Some (settle r, w'))))
     \<and> ((\<forall>hist x. req_url (request x) = apiUrl (sdk w) @ ''/oauth/token''
                      \<longrightarrow> httpService ev hist x = Resolve res) \<and> \<not> loose_null res \<longrightarrow>
           (\<exists>h' d'. api d' = ''/oauth'' \<and>
              sdk_request (Suc (Suc (Suc n))) ev (Some a) (Some cb) w =
                returns_undefined
                  (sdk_request (Suc (Suc n)) ev (Some a) (Some cb)
                     (retry_world a w w1 h (read res ''access_token'') (read res ''token_type'') d' h'))))
     \<and> (\<forall>t ty d' h'.
           counter (heap (retry_world a w w1 h t ty d' h') ! a) = Some (counter_or_0 (heap w ! a) + 1)
           \<and> length (heap (retry_world a w w1 h t ty d' h')) = Suc (length (heap w)))"
proof (intro conjI impI allI)
  assume pe: "promisesExist ev"
  from retry_step_promise [OF pe assms, of n]
  show "\<exists>h' d' t ty. api d' = ''/oauth'' \<and>
              sdk_request (Suc (Suc (Suc n))) ev (Some a) None w =
                (case sdk_request (Suc (Suc n)) ev (Some a) None (retry_world a w w1 h t ty d' h') of
                   None \<Rightarrow> None
                 | Some (r, w') \<Rightarrow> Some (settle r, w'))"
    unfolding retry_world_def .
next
  assume g: "(\<forall>hist x. req_url (request x) = apiUrl (sdk w) @ ''/oauth/token''
                      \<longrightarrow> httpService ev hist x = Resolve res) \<and> \<not> loose_null res"
  then have tok: "\<forall>hist x. req_url (request x) = apiUrl (sdk w) @ ''/oauth/token''
                      \<longrightarrow> httpService ev hist x = Resolve res"
    and res: "\<not> loose_null res" by blast+
  from retry_step_callback [OF assms tok res, of n cb]
  show "\<exists>h' d'. api d' = ''/oauth'' \<and>
              sdk_request (Suc (Suc (Suc n))) ev (Some a) (Some cb) w =
                returns_undefined
                  (sdk_request (Suc (Suc n)) ev (Some a) (Some cb)
                     (retry_world a w w1 h (read res ''access_token'') (read res ''token_type'') d' h'))"
    unfolding retry_world_def .
next
  fix t ty d' h'
  show "counter (heap (retry_world a w w1 h t ty d' h') ! a) = Some (counter_or_0 (heap w ! a) + 1)"
    using assms(2) by (simp add: retry_world_def nth_append)
  show "length (heap (retry_world a w w1 h t ty d' h')) = Suc (length (heap w))"
    by (simp add: retry_world_def)
qed

text \<open>
  The amended claim C4 at a concrete input: the descriptor of \<^verbatim>\<open>getTrending({})\<close> and
  the transport that answers 401 once.
\<close>

theorem retry_reuses_descriptor_witness:
  "(\<exists>h' d' t ty. api d' = ''/oauth'' \<and>
      sdk_request (Suc (Suc (Suc 0))) (sample_env (unauthorized_first 1)) (Some 0) None trending_world =
        (case sdk_request (Suc (Suc 0)) (sample_env (unauthorized_first 1)) (Some 0) None
                (retry_world 0 trending_world trending_prepared trending_request t ty d' h') of
           None \<Rightarrow> None
         | Some (r, w') \<Rightarrow> Some (settle r, w')))
   \<and> (\<exists>h' d'. api d' = ''/oauth'' \<and>
      sdk_request (Suc (Suc (Suc 0))) (sample_env (unauthorized_first 1)) (Some 0) (Some user_callback)
          trending_world =
        returns_undefined
          (sdk_request (Suc (Suc 0)) (sample_env (unauthorized_first 1)) (Some 0) (Some user_callback)
             (retry_world 0 trending_world trending_prepared trending_request
                (Str ''t0k3n'') (Str ''bearer'') d' h')))
   \<and> counter (heap (retry_world 0 trending_world trending_prepared trending_request
                      (Str ''t0k3n'') (Str ''bearer'') (oauth_descriptor keyed_client (Obj []))
                      token_request) ! 0) = Some 1"
proof -
  let ?ev = "sample_env (unauthorized_first 1)"
  have w: "trending_world = \<lparr> sdk = keyed_client, heap = [getTrending_descriptor (Obj [])], sent = [], calls = [] \<rparr>"
    by (simp add: trending_world_def alloc_def start_world_def)
  have h1: "has_keys (sdk trending_world)"
    by (simp add: w has_keys_def keyed_client_def new_client_def)
  have h2: "0 < length (heap trending_world)" by (simp add: w)
  have c: "counter_or_0 (heap trending_world ! 0) = 0"
    by (simp add: w getTrending_descriptor_def counter_or_0_def)
  have h3: "0 \<le> counter_or_0 (heap trending_world ! 0)" by (simp add: c)
  have h4: "counter_or_0 (heap trending_world ! 0) < retryLimit (sdk trending_world)"
    by (simp add: c) (simp add: w keyed_client_def new_client_def)
  have h5: "api (heap trending_world ! 0) \<noteq> ''/oauth''"
    by (simp add: w getTrending_descriptor_def)
  have h6: "prepare ?ev 0 trending_world = (Inr trending_request, trending_prepared)"
    by code_simp
  have h7: "httpService ?ev (map snd (sent trending_world)) trending_request = Reject (Num 401)"
    by code_simp
  have pe: "promisesExist ?ev" by (simp add: sample_env_def)
  have tok: "\<forall>hist x. req_url (request x) = apiUrl (sdk trending_world) @ ''/oauth/token''
                      \<longrightarrow> httpService ?ev hist x = Resolve token_body"
    by (simp add: w keyed_client_def new_client_def API_HOSTNAME_def sample_env_def
        unauthorized_first_def is_token_request_def)
  have res: "\<not> loose_null token_body" by (simp add: token_body_def)
  have rd: "read token_body ''access_token'' = Str ''t0k3n''" "read token_body ''token_type'' = Str ''bearer''"
    by (simp_all add: token_body_def read_def)
  from retry_reuses_descriptor [OF h1 h2 h3 h4 h5 h6 h7, of 0 token_body user_callback] pe tok res
  show ?thesis
    by (simp add: rd c del: sdk_request.simps)
qed

text \<open>
  Claim C5 at an input where the code departs from it. \<^verbatim>\<open>stickers({search_text: 'cat'},
  callback)\<close>: line 313 does not pass the callback on, so the callback is never invoked,
  on success or on failure, and the call returns a promise instead. \<^verbatim>\<open>search\<close> with the
  same arguments invokes the callback as the claim says.
\<close>

theorem stickers_drops_callback:
  "observed (stickers 4 (sample_env always_ok) (Obj [(''search_text'', Str ''cat'')])
        (Some user_callback) start_world)
     = Some (Fulfilled gifs_body, [])
   \<and> observed (stickers 4 (sample_env (always_status 500)) (Obj [(''search_text'', Str ''cat'')])
        (Some user_callback) start_world)
     = Some (Rejected (Num 500), [])
   \<and> observed (search 4 (sample_env always_ok) (Obj [(''search_text'', Str ''cat'')])
        (Some user_callback) start_world)
     = Some (Undef, [(Null, gifs_body)])
   \<and> observed (search 4 (sample_env (always_status 500)) (Obj [(''search_text'', Str ''cat'')])
        (Some user_callback) start_world)
     = Some (Undef, [(Num 500, Undefined)])"
  by code_simp

text \<open>
  Claim C6. For every query mapping \<open>q\<close> of a descriptor (an object: its keys are
  distinct), the URL of the request the orchestrator prepares ends in the encoding of a
  mapping \<open>q'\<close> that has no entry whose value is null or undefined, that keeps every entry
  of \<open>q\<close> whose value is zero or the empty string, and that has no entry \<open>q\<close> has not.
  The encoder \<^verbatim>\<open>qs.stringify\<close> is a parameter.
\<close>

theorem query_string_omits_nulls:
  assumes "distinct (map fst q)" and "query (heap w ! a) = Obj q"
    and "prepare ev a w = (Inr h, w1)"
  shows "\<exists>q'. req_url (request h) =
             apiUrl (sdk w) @ api (heap w ! a) @ endpoint (heap w ! a)
               @ (if q = [] then [] else ''?'' @ queryString ev q')
          \<and> (\<forall>p \<in> set q'. snd p \<noteq> Null \<and> snd p \<noteq> Undefined)
          \<and> (\<forall>p \<in> set q. snd p = Num 0 \<or> snd p = Str [] \<longrightarrow> p \<in> set q')
          \<and> set q' \<subseteq> set q"
proof -
  from prepare_Inr [OF assms(3)] obtain d1 qs d2 where
    d1: "attach_token (sdk w) (heap w ! a) = Some d1" and d2: "build_query ev d1 = Some (qs, d2)"
    and h: "h = httpOptions (sdk w) d2 qs"
    by blast
  note f1 = attach_token_frame [OF d1] and f2 = build_query_frame [OF d2]
  have q1: "query d1 = Obj q" using f1 assms(2) by simp
  have qs: "qs = (if q = [] then [] else ''?'' @ queryString ev (omit_nulls q))"
    using d2 q1 by (auto simp: build_query_def split: if_splits)
  have url: "req_url (request h) =
             apiUrl (sdk w) @ api (heap w ! a) @ endpoint (heap w ! a)
               @ (if q = [] then [] else ''?'' @ queryString ev (omit_nulls q))"
    using h f1 f2 qs by (simp add: httpOptions_def)
  have n: "\<forall>p \<in> set (omit_nulls q). snd p \<noteq> Null \<and> snd p \<noteq> Undefined"
    by (auto simp: omit_nulls_filter [OF assms(1)] loose_null_iff)
  have z: "\<forall>p \<in> set q. snd p = Num 0 \<or> snd p = Str [] \<longrightarrow> p \<in> set (omit_nulls q)"
    by (auto simp: omit_nulls_filter [OF assms(1)])
  have s: "set (omit_nulls q) \<subseteq> set q"
    by (auto simp: omit_nulls_filter [OF assms(1)])
  from url n z s show ?thesis by blast
qed

text \<open>
  Claim C6 at a concrete input: \<^verbatim>\<open>getRelatedContent\<close> with an empty cursor, count 0 and
  a null \<^verbatim>\<open>from\<close>.
\<close>

theorem query_string_omits_nulls_witness:
  "distinct (map fst [(''cursor'', Str []), (''count'', Num 0), (''from'', Null)])
   \<and> query (heap related_world ! 0) = Obj [(''cursor'', Str []), (''count'', Num 0), (''from'', Null)]
   \<and> prepare (sample_env always_ok) 0 related_world = (Inr related_request, related_stripped)
   \<and> req_url (request related_request)
        = ''https://api.gfycat.com/v1/gfycats/abc/related?cursor=&count=0''"
proof -
  let ?q = "[(''cursor'', Str []), (''count'', Num 0), (''from'', Null)]"
  have a: "distinct (map fst ?q)" by simp
  have b: "query (heap related_world ! 0) = Obj ?q"
    by (simp add: related_world_def alloc_def start_world_def getRelatedContent_descriptor_def read_def)
  have c: "prepare (sample_env always_ok) 0 related_world = (Inr related_request, related_stripped)"
    by code_simp
  from query_string_omits_nulls [OF a b c] a b c show ?thesis
    by (simp add: related_request_def)
qed




text \<open>
  Claim C8. When the dispatch of a request fails and either the error is not 401 or the
  descriptor targets the authentication endpoint (\<^verbatim>\<open>api\<close> is \<^verbatim>\<open>'/oauth'\<close>), the error
  goes to the caller unchanged, in the callback's error slot or as the rejection of the
  promise, after exactly this one dispatch: no token request is built or sent. So
  re-authentication can only follow a 401 of an operation that is not the authentication
  request. (The counter is below the limit.)
\<close>

theorem no_reauthentication:
  assumes "a < length (heap w)"
    and "counter_or_0 (heap w ! a) < retryLimit (sdk w)"
    and "prepare ev a w = (Inr h, w1)"
    and "httpService ev (map snd (sent w)) h = Reject err"
    and "err \<noteq> Num 401 \<or> api (heap w ! a) = ''/oauth''"
  shows "sdk_request (Suc n) ev (Some a) (Some cb) w =
           returns_undefined (cb err Undefined (w1\<lparr> sent := sent w @ [(a, h)] \<rparr>))
     \<and> (promisesExist ev \<longrightarrow>
           sdk_request (Suc n) ev (Some a) None w =
             Some (Rejected err, w1\<lparr> sent := sent w @ [(a, h)] \<rparr>))
     \<and> length (heap w1) = length (heap w) \<and> sdk w1 = sdk w"
proof -
  from prepare_Inr_frame [OF assms(3)] obtain qs d2 where
    w1: "w1 = w\<lparr> heap := (heap w)[a := d2] \<rparr>" and api2: "api d2 = api (heap w ! a)"
    by blast
  have at: "heap w1 ! a = d2" using w1 assms(1) by simp
  let ?w2 = "w1\<lparr> sent := sent w @ [(a, h)] \<rparr>"
  have d: "dispatch ev a h w1 = (Reject err, ?w2)"
    using assms(4) w1 by (simp add: dispatch_def)
  have no: "\<not> (err = Num 401 \<and> api (heap ?w2 ! a) \<noteq> ''/oauth'')"
    using assms(5) api2 at by auto
  have cbm: "sdk_request (Suc n) ev (Some a) (Some cb) w = returns_undefined (cb err Undefined ?w2)"
    by (simp only: request_callback_unfold [OF assms(2)] assms(3) d prod.case sum.case reply.case no if_False)
  have prm: "promisesExist ev \<Longrightarrow> sdk_request (Suc n) ev (Some a) None w = Some (Rejected err, ?w2)"
    by (simp only: request_promise_unfold [OF _ assms(2)] assms(3) d prod.case sum.case reply.case no if_False)
  show ?thesis using cbm prm w1 by simp
qed

text \<open>
  Claim C8 at a concrete input: the token request itself, answered with 401.
\<close>

theorem no_reauthentication_witness:
  "observed (sdk_request (Suc 0) (sample_env (always_status 401)) (Some 0) (Some user_callback) token_world)
     = Some (Undef, [(Num 401, Undefined)])
   \<and> dispatched (sdk_request (Suc 0) (sample_env (always_status 401)) (Some 0) (Some user_callback) token_world)
     = Some [0]
   \<and> sdk_request (Suc 0) (sample_env (always_status 401)) (Some 0) None token_world
     = Some (Rejected (Num 401), token_world\<lparr> sent := [(0, token_request)] \<rparr>)"
proof -
  let ?ev = "sample_env (always_status 401)"
  have w: "token_world = \<lparr> sdk = keyed_client, heap = [oauth_descriptor keyed_client (Obj [])], sent = [], calls = [] \<rparr>"
    by (simp add: token_world_def alloc_def start_world_def)
  have h1: "0 < length (heap token_world)" by (simp add: w)
  have h2: "counter_or_0 (heap token_world ! 0) < retryLimit (sdk token_world)"
    by (simp add: w keyed_client_def new_client_def)
  have h3: "prepare ?ev 0 token_world = (Inr token_request, token_world)"
    by code_simp
  have h4: "httpService ?ev (map snd (sent token_world)) token_request = Reject (Num 401)"
    by (simp add: sample_env_def always_status_def)
  have h5: "Num 401 \<noteq> Num 401 \<or> api (heap token_world ! 0) = ''/oauth''"
    by (simp add: w)
  have pe: "promisesExist ?ev" by (simp add: sample_env_def)
  have s: "sent token_world = []" by (simp add: w)
  from no_reauthentication [OF h1 h2 h3 h4 h5, of 0 user_callback] pe
  show ?thesis
    by (simp add: observed_def dispatched_def returns_undefined_def and_then_def user_callback_def s
        w del: sdk_request.simps)
qed




text \<open>
  Claim C10. The path prefix is a variable of the module. Once one client has been
  constructed without configuration, whatever constructor calls follow, every client
  constructed afterwards, with credentials or not, has its \<^verbatim>\<open>apiUrl\<close> on
  \<^verbatim>\<open>/v1test\<close>, and so has every request URL built for it.
\<close>

theorem base_path_is_module_state:
  assumes "GfycatSDK options (constructions os (snd (GfycatSDK Undefined m))) = (Inr c, m')"
  shows "API_BASE_PATH m' = ''/v1test''
     \<and> apiUrl c = ''https://api.gfycat.com/v1test''
     \<and> req_url (request (httpOptions c d q)) = ''https://api.gfycat.com/v1test'' @ api d @ endpoint d @ q"
proof -
  have "API_BASE_PATH (constructions os (snd (GfycatSDK Undefined m))) = ''/v1test''"
    by (rule constructions_keep_test_prefix) (rule anonymous_switches)
  then have p: "API_BASE_PATH m' = ''/v1test''"
    using test_prefix_sticks [of "constructions os (snd (GfycatSDK Undefined m))" options] assms
    by simp
  have "apiUrl c = API_HOSTNAME @ API_BASE_PATH m'"
    using assms by (rule constructed_apiUrl)
  with p have u: "apiUrl c = ''https://api.gfycat.com/v1test''"
    by (simp add: API_HOSTNAME_def)
  show ?thesis using p u by (simp add: httpOptions_def)
qed

text \<open>
  Claim C10 at a concrete input: an anonymous construction followed by one with
  credentials.
\<close>

theorem base_path_is_module_state_witness:
  "GfycatSDK (Obj [(''client_id'', Str ''id''), (''client_secret'', Str ''secret'')])
      (constructions [] (snd (GfycatSDK Undefined module_init)))
     = (Inr (new_client (Str ''id'') (Str ''secret'') (Num 30000) ''/v1test''),
        module_init\<lparr> console := [anonymous_warning], API_BASE_PATH := ''/v1test'' \<rparr>)
   \<and> apiUrl (new_client (Str ''id'') (Str ''secret'') (Num 30000) ''/v1test'')
       = ''https://api.gfycat.com/v1test''
   \<and> req_url (request (httpOptions (new_client (Str ''id'') (Str ''secret'') (Num 30000) ''/v1test'')
         (getTrending_descriptor (Obj [])) ''?count=100''))
       = ''https://api.gfycat.com/v1test/gfycats/trending?count=100''"
proof -
  have h: "GfycatSDK (Obj [(''client_id'', Str ''id''), (''client_secret'', Str ''secret'')])
      (constructions [] (snd (GfycatSDK Undefined module_init)))
     = (Inr (new_client (Str ''id'') (Str ''secret'') (Num 30000) ''/v1test''),
        module_init\<lparr> console := [anonymous_warning], API_BASE_PATH := ''/v1test'' \<rparr>)"
    by (simp add: GfycatSDK_def module_init_def has_own_def read_def js_or_def)
  show ?thesis
    using h base_path_is_module_state [OF h, of "getTrending_descriptor (Obj [])" "''?count=100''"]
    by (simp add: getTrending_descriptor_def)
qed

end
